theory Spec2Isabelle
  imports Main
begin

section \<open>Remote build hosts of sisyphus: a model of \<open>sisyphus/host.py\<close>\<close>

text \<open>
  The theory embeds the class \<open>Host\<close> of \<open>src/sisyphus/host.py\<close>: the constructor with
  its detection of the remote system, \<open>path_join\<close>, \<open>path\<close>, \<open>run\<close>, \<open>exists\<close>, \<open>isdir\<close>,
  \<open>mkdir\<close>, \<open>ls\<close>, \<open>rm\<close>, \<open>reset_connection\<close>, \<open>status\<close>, \<open>wait\<close>, \<open>transmute\<close> and
  \<open>download\<close>. The methods that prepare a host, start and watch a build, and upload
  packages are not modelled. Python strings are lists of 8-bit characters read as code
  points 0 to 255. A method of \<open>Host\<close> becomes a function of the same name that takes the
  fields of \<open>self\<close> as a record, the remote machine as an environment, and the state of the
  run, which it returns updated together with its result or the exception it raises.
\<close>

subsection \<open>Strings\<close>

definition sq :: string where
  "sq = [CHR 0x27]"

definition dq :: string where
  "dq = [CHR 0x22]"

definition bs :: string where
  "bs = [CHR 0x5C]"

text \<open>\<open>sep.join(xs)\<close>.\<close>

fun join :: "string \<Rightarrow> string list \<Rightarrow> string" where
  "join sep [] = []"
| "join sep [x] = x"
| "join sep (x # y # ys) = x @ sep @ join sep (y # ys)"

text \<open>\<open>s.endswith(suffix)\<close>.\<close>

definition endswith :: "string \<Rightarrow> string \<Rightarrow> bool" where
  "endswith s suffix = (length suffix \<le> length s \<and> drop (length s - length suffix) s = suffix)"

subsection \<open>The fields of a host\<close>

record host =
  host :: string
  type :: string
  user :: string
  separator :: string
  topdir :: string
  touch :: string
  cat :: string
  pkgdir :: string
  sisyphus_dir :: string

subsection \<open>Paths\<close>

text \<open>
  The loop of \<open>path_join\<close> over the characters of the joined string: \<open>cleaned_path\<close> is
  the accumulator, and a character is skipped when it is the separator and the accumulator
  is not empty and ends with the separator. A character \<open>c\<close> of a Python string is the
  string \<open>[c]\<close>, so the comparisons with \<open>self.separator\<close> are comparisons of strings.
\<close>

fun clean :: "string \<Rightarrow> string \<Rightarrow> string \<Rightarrow> string" where
  "clean sep cleaned_path [] = cleaned_path"
| "clean sep cleaned_path (c # cs) =
     (if length cleaned_path > 0 \<and> [c] = sep \<and> [last cleaned_path] = sep
      then clean sep cleaned_path cs
      else clean sep (cleaned_path @ [c]) cs)"

definition path_join :: "host \<Rightarrow> string list \<Rightarrow> string" where
  "path_join h paths = clean (separator h) [] (join (separator h) paths)"

definition path :: "host \<Rightarrow> string list \<Rightarrow> string" where
  "path h paths = path_join h (sisyphus_dir h # paths)"


subsection \<open>More of Python's string methods\<close>

text \<open>
  \<open>str.isspace\<close> on the code points below 256: the characters that \<open>lstrip()\<close> and
  \<open>rstrip()\<close> remove when called without an argument.
\<close>

definition isspace :: "char \<Rightarrow> bool" where
  "isspace c = (c \<in> set [CHR 0x09, CHR 0x0A, CHR 0x0B, CHR 0x0C, CHR 0x0D, CHR 0x1C, CHR 0x1D,
     CHR 0x1E, CHR 0x1F, CHR 0x20, CHR 0x85, CHR 0xA0])"

definition lstrip :: "string \<Rightarrow> string" where
  "lstrip s = dropWhile isspace s"

definition rstrip :: "string \<Rightarrow> string" where
  "rstrip s = rev (dropWhile isspace (rev s))"

text \<open>
  \<open>str.splitlines()\<close>: the line boundaries below code point 256; a carriage return
  followed by a line feed is one boundary, and a final boundary opens no further line.
\<close>

definition linebreak :: "char \<Rightarrow> bool" where
  "linebreak c = (c \<in> set [CHR 0x0A, CHR 0x0B, CHR 0x0C, CHR 0x0D, CHR 0x1C, CHR 0x1D,
     CHR 0x1E, CHR 0x85])"

fun split_from :: "string \<Rightarrow> string \<Rightarrow> string list" where
  "split_from line [] = (if line = [] then [] else [line])"
| "split_from line [c] = (if linebreak c then [line] else [line @ [c]])"
| "split_from line (c # d # cs) =
     (if c = CHR 0x0D \<and> d = CHR 0x0A then line # split_from [] cs
      else if linebreak c then line # split_from [] (d # cs)
      else split_from (line @ [c]) (d # cs))"

definition splitlines :: "string \<Rightarrow> string list" where
  "splitlines s = split_from [] s"

text \<open>\<open>s.replace(old, new)\<close> for one-character strings \<open>old\<close> and \<open>new\<close>.\<close>

definition replace_char :: "char \<Rightarrow> char \<Rightarrow> string \<Rightarrow> string" where
  "replace_char old new s = map (\<lambda>c. if c = old then new else c) s"

text \<open>
  \<open>re.sub(pattern + "$", repl, s)\<close> for a pattern that is a sequence of literal characters
  and dots: \<open>Some c\<close> is the literal \<open>c\<close>, \<open>None\<close> is the dot, which matches every
  character but the line feed. Without the multi-line flag \<open>$\<close> matches at the end of the
  string and before a line feed that ends the string, so at most one place matches.
\<close>

definition pat_match :: "char option list \<Rightarrow> string \<Rightarrow> bool" where
  "pat_match pat s =
     list_all2 (\<lambda>q c. case q of None \<Rightarrow> c \<noteq> CHR 0x0A | Some d \<Rightarrow> c = d) pat s"

definition re_sub_end :: "char option list \<Rightarrow> string \<Rightarrow> string \<Rightarrow> string" where
  "re_sub_end pat repl s =
     (let n = length s; k = length pat in
      if k \<le> n \<and> pat_match pat (drop (n - k) s) then take (n - k) s @ repl
      else if s \<noteq> [] \<and> last s = CHR 0x0A \<and> k \<le> n - 1
              \<and> pat_match pat (drop (n - 1 - k) (butlast s))
      then take (n - 1 - k) s @ repl @ [CHR 0x0A]
      else s)"

text \<open>The patterns \<open>tar.bz2\<close> and \<open>conda\<close> of \<open>transmute\<close>.\<close>

definition tar_bz2_pat :: "char option list" where
  "tar_bz2_pat = [Some CHR ''t'', Some CHR ''a'', Some CHR ''r'', None,
     Some CHR ''b'', Some CHR ''z'', Some CHR ''2'']"

definition conda_pat :: "char option list" where
  "conda_pat = map Some ''conda''"

subsection \<open>Constants of the module\<close>

definition LINUX_TYPE :: string where
  "LINUX_TYPE = ''linux''"

definition WINDOWS_TYPE :: string where
  "WINDOWS_TYPE = ''windows''"

definition LINUX_USER :: string where
  "LINUX_USER = ''ec2-user''"

definition WINDOWS_USER :: string where
  "WINDOWS_USER = ''dev-admin''"

definition LINUX_TOPDIR :: string where
  "LINUX_TOPDIR = ''/tmp''"

definition WINDOWS_TOPDIR :: string where
  "WINDOWS_TOPDIR = bs @ ''tmp''"

definition ACTIVATE :: string where
  "ACTIVATE = ''conda activate sisyphus &&''"

subsection \<open>The world outside the program\<close>

text \<open>
  What the program does to the remote machine and to the local file system is a function
  of an environment, which the model takes as a parameter. \<open>remote env u cmd w\<close> is what
  \<open>fabric.Connection(user=u, host=...).run(cmd, hide=True)\<close> does in the world \<open>w\<close>:
  \<open>None\<close> when it raises (no connection, or a command that exits with a non-zero
  status), \<open>Some out\<close> with the standard output otherwise, and the world afterwards.
  \<open>elapse env n w\<close> is the world after \<open>time.sleep(n)\<close>, during which a job on the
  remote machine goes on. \<open>localfs env op w\<close> runs an operation on the local machine, and
  its boolean is false when the operation raises. \<open>os_path_join env\<close> is \<open>os.path.join\<close>
  of the local machine.
\<close>

datatype local_op =
    Makedirs string
  | Rmtree string
  | Chdir string
  | Get string string
  | Extractall string
  | Remove string

record 'w env =
  remote :: "string \<Rightarrow> string \<Rightarrow> 'w \<Rightarrow> string option \<times> 'w"
  elapse :: "nat \<Rightarrow> 'w \<Rightarrow> 'w"
  localfs :: "local_op \<Rightarrow> 'w \<Rightarrow> bool \<times> 'w"
  os_path_join :: "string \<Rightarrow> string \<Rightarrow> string"

text \<open>
  The effects of a run, in order: connections made and closed, commands run with the user
  they ran as and their answer, sleeps, and operations on the local machine.
\<close>

datatype event =
    Connect string
  | Close
  | Run string string "string option"
  | Sleep nat
  | Local local_op bool

datatype level = DEBUG | INFO | WARNING | ERROR

text \<open>
  What is written to the console: a call of \<open>logging\<close> with its level and its message as
  written in the source (the arguments of the message are left out), and a write to the
  standard output.
\<close>

datatype written = Log level string | Write string

text \<open>
  The state of a run: the world, the user of the connection that \<open>self.connection\<close> holds,
  the effects so far and the console so far.
\<close>

record 'w session =
  world :: 'w
  connection :: string
  trace :: "event list"
  console :: "written list"

text \<open>
  Exceptions that leave a method: \<open>SystemExit\<close> with its code, the two errors Python
  raises on a variable that was never bound and on a method of \<open>None\<close>, and an exception
  of an operation on the local machine that nothing catches.
\<close>

datatype exn = SystemExit nat | UnboundLocalError | AttributeError | LocalError

datatype 'a outcome = Return 'a | Raise exn

text \<open>Sequencing: an exception of the first part leaves out the second.\<close>

definition andthen ::
  "'a outcome \<times> 's \<Rightarrow> ('a \<Rightarrow> 's \<Rightarrow> 'b outcome \<times> 's) \<Rightarrow> 'b outcome \<times> 's" where
  "andthen m f = (case m of (Return a, s) \<Rightarrow> f a s | (Raise e, s) \<Rightarrow> (Raise e, s))"

definition logging :: "level \<Rightarrow> string \<Rightarrow> 'w session \<Rightarrow> 'w session" where
  "logging lvl msg s = s\<lparr>console := console s @ [Log lvl msg]\<rparr>"

definition print_dot :: "'w session \<Rightarrow> 'w session" where
  "print_dot s = s\<lparr>console := console s @ [Write ''.'']\<rparr>"

definition print_newline :: "'w session \<Rightarrow> 'w session" where
  "print_newline s = s\<lparr>console := console s @ [Write [CHR 0x0A]]\<rparr>"

definition effect :: "event \<Rightarrow> 'w session \<Rightarrow> 'w session" where
  "effect e s = s\<lparr>trace := trace s @ [e]\<rparr>"

subsection \<open>Connecting and running commands\<close>

text \<open>\<open>Host.__test_connection\<close>: it catches every exception and returns a boolean.\<close>

definition test_connection ::
  "'w env \<Rightarrow> string \<Rightarrow> string \<Rightarrow> string \<Rightarrow> 'w session \<Rightarrow> bool \<times> 'w session" where
  "test_connection env usr cmd typ s =
     (let s1 = logging DEBUG (''Attempting to connect to '' @ sq @ ''%s'' @ sq
                 @ '' assuming it'' @ sq @ ''s %s'') s;
          s2 = effect (Connect usr) (s1\<lparr>connection := usr\<rparr>);
          r = remote env usr cmd (world s2);
          s3 = effect (Run usr cmd (fst r)) (s2\<lparr>world := snd r\<rparr>)
      in case fst r of
           None \<Rightarrow>
             (False, effect Close (logging DEBUG (''Couldn'' @ sq @ ''t connect to host '' @ sq
                @ ''%s'' @ sq @ '' or it isn'' @ sq @ ''t '' @ sq @ ''%s'' @ sq) s3))
         | Some out \<Rightarrow>
             (True, logging INFO (sq @ ''%s'' @ sq @ '' is a %s host'')
                (logging DEBUG (rstrip (lstrip out)) s3)))"

text \<open>
  \<open>Host.run\<close>: the standard output stripped, \<open>SystemExit(1)\<close> when the command fails and
  \<open>quiet\<close> is false, and \<open>None\<close> when it fails and \<open>quiet\<close> is true.
\<close>

definition run ::
  "'w env \<Rightarrow> string \<Rightarrow> bool \<Rightarrow> 'w session \<Rightarrow> string option outcome \<times> 'w session" where
  "run env cmd quiet s =
     (let r = remote env (connection s) cmd (world s);
          s1 = effect (Run (connection s) cmd (fst r)) (s\<lparr>world := snd r\<rparr>)
      in case fst r of
           None \<Rightarrow>
             (if \<not> quiet then (Raise (SystemExit 1), logging ERROR ''%s'' s1)
              else (Return None, s1))
         | Some out \<Rightarrow>
             (let stdout = rstrip (lstrip out)
              in (Return (Some stdout),
                  fold (logging DEBUG) (splitlines stdout)
                    (logging DEBUG (''Running '' @ sq @ ''%s'' @ sq) s1))))"

text \<open>\<open>Host.reset_connection\<close>.\<close>

definition reset_connection :: "'w env \<Rightarrow> host \<Rightarrow> nat \<Rightarrow> 'w session \<Rightarrow> 'w session" where
  "reset_connection env h wait_time s =
     (let s1 = effect Close s;
          s2 = effect (Sleep wait_time) (s1\<lparr>world := elapse env wait_time (world s1)\<rparr>)
      in effect (Connect (user h)) (s2\<lparr>connection := user h\<rparr>))"

subsection \<open>Files on the remote machine\<close>

text \<open>
  \<open>Host.exists\<close> and \<open>Host.isdir\<close>. A host whose type is neither of the two never binds
  \<open>r\<close>, and the comparison that follows raises.
\<close>

definition is_yes ::
  "string \<Rightarrow> string \<Rightarrow> string option \<Rightarrow> 'w session \<Rightarrow> bool outcome \<times> 'w session" where
  "is_yes yes_msg no_msg r s =
     (if r = Some ''Yes'' then (Return True, logging DEBUG yes_msg s)
      else (Return False, logging DEBUG no_msg s))"

definition exists :: "'w env \<Rightarrow> host \<Rightarrow> string \<Rightarrow> 'w session \<Rightarrow> bool outcome \<times> 'w session" where
  "exists env h p s =
     (let answer = is_yes (sq @ ''%s'' @ sq @ '' exists'')
                     (sq @ ''%s'' @ sq @ '' doesn'' @ sq @ ''t exist'')
      in if type h = LINUX_TYPE
         then andthen (run env (''if [[ -e '' @ sq @ p @ sq @ '' ]]; then echo Yes; fi'') False s)
                answer
         else if type h = WINDOWS_TYPE
         then andthen (run env (''if exist '' @ dq @ p @ dq @ '' echo Yes'') False s) answer
         else (Raise UnboundLocalError, s))"

definition isdir :: "'w env \<Rightarrow> host \<Rightarrow> string \<Rightarrow> 'w session \<Rightarrow> bool outcome \<times> 'w session" where
  "isdir env h p s =
     (let answer = is_yes (sq @ ''%s'' @ sq @ '' is a directory'')
                     (sq @ ''%s'' @ sq @ '' isn'' @ sq @ ''t a directory'')
      in if type h = LINUX_TYPE
         then andthen (run env (''if [[ -d '' @ sq @ p @ sq @ '' ]]; then echo Yes; fi'') False s)
                answer
         else if type h = WINDOWS_TYPE
         then andthen (run env (''if exist '' @ dq @ p @ bs @ ''*'' @ dq @ '' echo Yes'') False s)
                answer
         else (Raise UnboundLocalError, s))"

text \<open>\<open>Host.mkdir\<close>.\<close>

definition mkdir :: "'w env \<Rightarrow> host \<Rightarrow> string \<Rightarrow> 'w session \<Rightarrow> unit outcome \<times> 'w session" where
  "mkdir env h p s =
     andthen (exists env h p s) (\<lambda>found s1.
       if found
       then andthen (isdir env h p s1) (\<lambda>dir s2.
              if dir
              then (Return (), logging DEBUG (''Directory '' @ sq @ ''%s'' @ sq
                      @ '' already exists'') s2)
              else (Raise (SystemExit 1), logging ERROR (sq @ ''%s'' @ sq
                      @ '' already exists and is a file, can'' @ sq @ ''t create directory'') s2))
       else if type h = LINUX_TYPE
       then andthen (run env (''mkdir -p '' @ p) False s1) (\<lambda>_ s2. (Return (), s2))
       else if type h = WINDOWS_TYPE
       then andthen (run env (''mkdir '' @ dq @ p @ dq) False s1) (\<lambda>_ s2. (Return (), s2))
       else (Return (), s1))"

text \<open>
  \<open>Host.ls\<close>: the lines of the answer. \<open>run\<close> is called with \<open>quiet\<close> false, so it
  returns a string or raises.
\<close>

definition lines_of :: "string option \<Rightarrow> 'w session \<Rightarrow> string list outcome \<times> 'w session" where
  "lines_of out s =
     (case out of None \<Rightarrow> (Raise AttributeError, s) | Some t \<Rightarrow> (Return (splitlines t), s))"

definition ls :: "'w env \<Rightarrow> host \<Rightarrow> string \<Rightarrow> 'w session \<Rightarrow> string list outcome \<times> 'w session" where
  "ls env h p s =
     (if type h = LINUX_TYPE
      then andthen (run env (''ls -1A '' @ p) False s) lines_of
      else if type h = WINDOWS_TYPE
      then andthen (run env (''dir /b '' @ dq @ p @ dq) False s) lines_of
      else (Raise UnboundLocalError, s))"

text \<open>\<open>Host.rm\<close>.\<close>

definition rm :: "'w env \<Rightarrow> host \<Rightarrow> string \<Rightarrow> 'w session \<Rightarrow> unit outcome \<times> 'w session" where
  "rm env h p s =
     andthen (exists env h p s) (\<lambda>found s1.
       if found
       then if type h = LINUX_TYPE
            then andthen (run env (''rm -rf '' @ p) False s1) (\<lambda>_ s2. (Return (), s2))
            else if type h = WINDOWS_TYPE
            then andthen (isdir env h p s1) (\<lambda>dir s2.
                   if dir
                   then andthen (run env (''rd /s /q '' @ dq @ p @ dq) False s2)
                          (\<lambda>_ s3. (Return (), s3))
                   else andthen (run env (''del '' @ dq @ p @ dq) False s2)
                          (\<lambda>_ s3. (Return (), s3)))
            else (Return (), s1)
       else (Return (), s1))"

subsection \<open>Construction\<close>

text \<open>
  \<open>Host.__init__\<close>. The fields are assigned in the order of the source: a field not yet
  assigned is the empty string. The last two lines of the constructor are \<open>init_session_dir\<close>.
\<close>

definition init_session_dir :: "'w env \<Rightarrow> host \<Rightarrow> 'w session \<Rightarrow> host outcome \<times> 'w session" where
  "init_session_dir env h s =
     (let h1 = h\<lparr>sisyphus_dir := path_join h [topdir h, ''sisyphus'']\<rparr>
      in andthen (mkdir env h1 (sisyphus_dir h1) s) (\<lambda>_ s1. (Return h1, s1)))"

text \<open>The state before the constructor runs: no connection yet, nothing done.\<close>

definition fresh :: "'w \<Rightarrow> 'w session" where
  "fresh w = \<lparr>world = w, connection = [], trace = [], console = []\<rparr>"

definition Host_init :: "'w env \<Rightarrow> string \<Rightarrow> 'w \<Rightarrow> host outcome \<times> 'w session" where
  "Host_init env address w =
     (let s0 = fresh w;
          h0 = \<lparr>host = address, type = [], user = [], separator = [], topdir = [], touch = [],
                cat = [], pkgdir = [], sisyphus_dir = []\<rparr>;
          t1 = test_connection env LINUX_USER ''uname -a'' LINUX_TYPE s0
      in if fst t1
         then (let h1 = h0\<lparr>type := LINUX_TYPE, user := LINUX_USER, separator := ''/'',
                           topdir := LINUX_TOPDIR, touch := ''touch'', cat := ''cat''\<rparr>
               in andthen (run env ''conda init'' False (snd t1)) (\<lambda>_ s2.
                    init_session_dir env (h1\<lparr>pkgdir := ''linux-64''\<rparr>) s2))
         else (let t2 = test_connection env WINDOWS_USER ''ver'' WINDOWS_TYPE (snd t1)
               in if fst t2
                  then (let h1 = h0\<lparr>type := WINDOWS_TYPE, user := WINDOWS_USER, separator := bs,
                                    topdir := WINDOWS_TOPDIR, touch := ''copy nul'',
                                    cat := ''type''\<rparr>
                        in andthen (run env (''C:'' @ bs @ ''miniconda3'' @ bs @ ''Scripts'' @ bs
                                      @ ''conda.exe init'') False (snd t2)) (\<lambda>_ s2.
                             init_session_dir env (h1\<lparr>pkgdir := ''win-64''\<rparr>) s2))
                  else (Raise (SystemExit 1),
                        logging ERROR (''Couldn'' @ sq @ ''t connect to host '' @ sq @ ''%s'' @ sq
                          @ '' or figure out what type it is'') (snd t2))))"

subsection \<open>The status of a build\<close>

text \<open>\<open>Host.status\<close>.\<close>

definition status :: "'w env \<Rightarrow> host \<Rightarrow> string \<Rightarrow> 'w session \<Rightarrow> string outcome \<times> 'w session" where
  "status env h package s =
     andthen (ls env h (path h [package]) s) (\<lambda>files s1.
       if ''build.ready'' \<in> set files then (Return ''Complete'', s1)
       else if ''build.failed'' \<in> set files then (Return ''Failed'', s1)
       else if ''build.log'' \<in> set files then (Return ''Building'', s1)
       else (Return ''Not started'', s1))"

text \<open>
  \<open>Host.wait\<close>. \<open>waiting\<close> is the part of the loop body between the two returns and the
  reconnection: it updates the two flags and writes the progress. The loop has no bound, so
  \<open>wait_loop\<close> is a partial function, and \<open>None\<close> is a loop that never ends.
\<close>

definition waiting ::
  "string \<Rightarrow> bool \<Rightarrow> bool \<Rightarrow> 'w session \<Rightarrow> bool \<times> bool \<times> 'w session" where
  "waiting st waiting_to_start waiting_to_finish s =
     (let a = (if st = ''Not started''
               then (True, print_dot (if \<not> waiting_to_start
                                      then logging INFO ''Waiting for build to start'' s else s))
               else (waiting_to_start, s))
      in if st = ''Building''
         then (let s1 = (if fst a then print_newline (snd a) else snd a);
                   s2 = (if \<not> waiting_to_finish
                         then logging INFO ''Waiting for build to finish'' s1 else s1)
               in (False, True, print_dot s2))
         else (fst a, waiting_to_finish, snd a))"

partial_function (option) wait_loop ::
  "'w env \<Rightarrow> host \<Rightarrow> string \<Rightarrow> bool \<Rightarrow> bool \<Rightarrow> 'w session \<Rightarrow> (bool outcome \<times> 'w session) option"
  where
  "wait_loop env h package waiting_to_start waiting_to_finish s =
     (case status env h package s of
        (Raise e, s1) \<Rightarrow> Some (Raise e, s1)
      | (Return st, s1) \<Rightarrow>
          if st = ''Complete''
          then Some (Return True, logging INFO ''Build complete'' (print_newline s1))
          else if st = ''Failed''
          then Some (Return False, logging ERROR ''Build failed'' (print_newline s1))
          else (case waiting st waiting_to_start waiting_to_finish s1 of
                  (wts, wtf, s2) \<Rightarrow>
                    wait_loop env h package wts wtf (reset_connection env h 60 s2)))"

definition wait ::
  "'w env \<Rightarrow> host \<Rightarrow> string \<Rightarrow> 'w session \<Rightarrow> (bool outcome \<times> 'w session) option" where
  "wait env h package s = wait_loop env h package False False s"

subsection \<open>Converting packages between the two formats\<close>

text \<open>
  The two loops of \<open>Host.transmute\<close> differ in the message and in the target format only:
  \<open>transmute_each\<close> is either loop.
\<close>

fun transmute_each ::
  "'w env \<Rightarrow> host \<Rightarrow> string \<Rightarrow> string \<Rightarrow> string \<Rightarrow> string list \<Rightarrow> 'w session
     \<Rightarrow> unit outcome \<times> 'w session" where
  "transmute_each env h dir msg ext [] s = (Return (), s)"
| "transmute_each env h dir msg ext (pkg # pkgs) s =
     (case run env (ACTIVATE @ '' cd '' @ dir @ '' && cph t '' @ pkg @ '' '' @ ext) False
             (reset_connection env h 0 (logging INFO msg s)) of
        (Raise e, s1) \<Rightarrow> (Raise e, s1)
      | (Return _, s1) \<Rightarrow> transmute_each env h dir msg ext pkgs s1)"

text \<open>\<open>Host.transmute\<close>. The directory is listed twice, once for each format.\<close>

definition transmute ::
  "'w env \<Rightarrow> host \<Rightarrow> string \<Rightarrow> 'w session \<Rightarrow> unit outcome \<times> 'w session" where
  "transmute env h package s =
     (let dir = path h [package, ''build'', pkgdir h]
      in andthen (ls env h dir s) (\<lambda>files1 s1.
         andthen (ls env h dir s1) (\<lambda>files2 s2.
           let all_bz2_pkgs = filter (\<lambda>p. endswith p ''.tar.bz2'') files1;
               all_conda_pkgs = filter (\<lambda>p. endswith p ''.conda'') files2;
               bz2_pkgs = filter (\<lambda>p. re_sub_end tar_bz2_pat ''conda'' p \<notin> set all_conda_pkgs)
                            all_bz2_pkgs;
               conda_pkgs = filter (\<lambda>p. re_sub_end conda_pat ''tar.bz2'' p \<notin> set all_bz2_pkgs)
                              all_conda_pkgs
           in andthen (transmute_each env h dir ''Transmuting %s to .conda'' ''.conda''
                         bz2_pkgs s2) (\<lambda>_ s3.
              andthen (transmute_each env h dir ''Transmuting %s to .tar.bz2'' ''.tar.bz2''
                         conda_pkgs s3) (\<lambda>_ s4.
              (Return (), reset_connection env h 0 s4))))))"

subsection \<open>Downloading the artifacts\<close>

definition local_do :: "'w env \<Rightarrow> local_op \<Rightarrow> 'w session \<Rightarrow> bool \<times> 'w session" where
  "local_do env op s =
     (let r = localfs env op (world s)
      in (fst r, effect (Local op (fst r)) (s\<lparr>world := snd r\<rparr>)))"

text \<open>
  The \<open>try\<close> block of \<open>Host.download\<close> that creates the tarball. \<open>run\<close> raises
  \<open>SystemExit\<close> only, which \<open>except Exception\<close> does not catch, so the handler of the
  block never runs.
\<close>

definition make_tar ::
  "'w env \<Rightarrow> host \<Rightarrow> bool \<Rightarrow> string \<Rightarrow> string \<Rightarrow> string list \<Rightarrow> 'w session
     \<Rightarrow> unit outcome \<times> 'w session" where
  "make_tar env h all' tf builddir files s =
     (if all'
      then andthen (run env (''cd '' @ topdir h @ '' && tar -cf '' @ tf @ '' sisyphus'') False
                      (logging INFO (''Downloading complete Sisyphus data at '' @ sq @ ''%s'' @ sq) s))
             (\<lambda>_ s1. (Return (), s1))
      else (let s0 = logging INFO (''Downloading %d build artifacts in '' @ sq @ ''%s'' @ sq) s
            in if type h = LINUX_TYPE
               then andthen (run env (''cd '' @ builddir @ '' && tar -cf '' @ tf @ '' ''
                               @ join '' '' files @ '' 2>/dev/null || true'') False s0)
                      (\<lambda>_ s1. (Return (), s1))
               else if type h = WINDOWS_TYPE
               then andthen (run env (''cd '' @ builddir @ '' && tar -cf '' @ tf @ '' ''
                               @ join '' '' files @ '' 2>nul )'') True s0)
                      (\<lambda>_ s1. (Return (), s1))
               else (Return (), s0)))"

text \<open>The part of \<open>Host.download\<close> after the check that the tarball exists.\<close>

definition fetch ::
  "'w env \<Rightarrow> host \<Rightarrow> string \<Rightarrow> string \<Rightarrow> bool \<Rightarrow> string \<Rightarrow> string \<Rightarrow> 'w session
     \<Rightarrow> unit outcome \<times> 'w session" where
  "fetch env h package destination all' tf_name tf s =
     (let dest = os_path_join env destination package;
          s1 = snd (local_do env (Makedirs dest) s);
          s2 = snd (local_do env
                 (Rmtree (os_path_join env dest (if all' then ''sisyphus'' else pkgdir h))) s1);
          c = local_do env (Chdir dest) s2
      in if \<not> fst c then (Raise LocalError, snd c)
         else (let s3 = reset_connection env h 0
                          (logging DEBUG (''Attempting to download from remote path: '' @ tf)
                             (snd c));
                   g = local_do env (Get (connection s3) (replace_char CHR 0x5C CHR ''/'' tf)) s3
               in if \<not> fst g
                  then (Raise (SystemExit 1),
                        logging ERROR (''Download failed for '' @ tf) (snd g))
                  else (let x = local_do env (Extractall tf_name) (snd g)
                        in if \<not> fst x then (Raise LocalError, snd x)
                           else (let r = local_do env (Remove tf_name)
                                           (reset_connection env h 0 (snd x))
                                 in if \<not> fst r then (Raise LocalError, snd r)
                                    else andthen (rm env h tf (snd r))
                                           (\<lambda>_ s5. (Return (), logging INFO ''Done'' s5))))))"

text \<open>\<open>Host.download\<close>.\<close>

definition download ::
  "'w env \<Rightarrow> host \<Rightarrow> string \<Rightarrow> string \<Rightarrow> bool \<Rightarrow> 'w session \<Rightarrow> unit outcome \<times> 'w session" where
  "download env h package destination all' s =
     andthen (transmute env h package s) (\<lambda>_ s1.
       let builddir = path h [package, ''build''];
           dir = path_join h [builddir, pkgdir h]
       in andthen (ls env h dir s1) (\<lambda>listed s2.
            let files = map (\<lambda>f. path_join h [pkgdir h, f])
                          (filter (\<lambda>f. endswith f ''.tar.bz2'' \<or> endswith f ''.conda'') listed)
            in if files = []
               then (Return (), logging WARNING ''No build artifacts to download'' s2)
               else (let tf_name = ''sisyphus_'' @ package @ ''_'' @ type h @ ''.tar'';
                         tf = path_join h [topdir h, tf_name]
                     in andthen (make_tar env h all' tf builddir files s2) (\<lambda>_ s3.
                        andthen (exists env h tf s3) (\<lambda>found s4.
                          if \<not> found
                          then (Raise (SystemExit 1),
                                logging ERROR (''Tar file '' @ sq @ ''%s'' @ sq @ '' is missing'') s4)
                          else fetch env h package destination all' tf_name tf s4)))))"

section \<open>Notions used to state the properties\<close>

text \<open>
  \<open>doubled sep s\<close>: two characters next to each other in \<open>s\<close> are both the separator.
\<close>

fun doubled :: "string \<Rightarrow> string \<Rightarrow> bool" where
  "doubled sep (x # y # zs) = (([x] = sep \<and> [y] = sep) \<or> doubled sep (y # zs))"
| "doubled sep _ = False"

text \<open>
  The status of a job as the specification derives it from the three markers, and the
  string that \<open>Host.status\<close> returns for it.
\<close>

datatype job_status = NotStarted | Building | Complete | Failed

definition spec_status :: "bool \<Rightarrow> bool \<Rightarrow> bool \<Rightarrow> job_status" where
  "spec_status hasLog hasReady hasFailed =
     (if hasReady then Complete
      else if hasFailed then Failed
      else if hasLog then Building
      else NotStarted)"

fun status_name :: "job_status \<Rightarrow> string" where
  "status_name NotStarted = ''Not started''"
| "status_name Building = ''Building''"
| "status_name Complete = ''Complete''"
| "status_name Failed = ''Failed''"

text \<open>The host that the constructor returns for a machine that answers as Linux.\<close>

definition linux_host :: host where
  "linux_host = \<lparr>host = ''10.0.0.7'', type = LINUX_TYPE, user = LINUX_USER, separator = ''/'',
     topdir = LINUX_TOPDIR, touch = ''touch'', cat = ''cat'', pkgdir = ''linux-64'',
     sisyphus_dir = ''/tmp/sisyphus''\<rparr>"

text \<open>The host that the constructor returns for a machine that answers as Windows.\<close>

definition windows_host :: host where
  "windows_host = \<lparr>host = ''10.0.0.8'', type = WINDOWS_TYPE, user = WINDOWS_USER,
     separator = bs, topdir = WINDOWS_TOPDIR, touch = ''copy nul'', cat = ''type'',
     pkgdir = ''win-64'', sisyphus_dir = bs @ ''tmp'' @ bs @ ''sisyphus''\<rparr>"

text \<open>A session on a host in a given world, with nothing done yet.\<close>

definition session_of :: "host \<Rightarrow> 'w \<Rightarrow> 'w session" where
  "session_of h w = \<lparr>world = w, connection = user h, trace = [], console = []\<rparr>"

subsection \<open>A simulated Linux machine\<close>

text \<open>
  A machine to run the model on. Its world is a list of paths, each a directory (\<open>True\<close>)
  or a file (\<open>False\<close>). It accepts the user \<open>ec2-user\<close> only and understands the commands
  that \<open>Host\<close> sends to a Linux machine: the two probes, \<open>mkdir -p\<close> (which fails on a file
  of that name), \<open>ls -1A\<close> (which fails on a path that does not exist, as \<open>ls\<close> does), and a
  command that ends with \<open>|| true\<close>, which succeeds and changes nothing. Every other
  command fails. Time changes nothing and the local operations succeed.
\<close>

definition strip_affix :: "string \<Rightarrow> string \<Rightarrow> string \<Rightarrow> string option" where
  "strip_affix pre suf s =
     (if length pre + length suf \<le> length s \<and> take (length pre) s = pre
         \<and> drop (length s - length suf) s = suf
      then Some (take (length s - length pre - length suf) (drop (length pre) s))
      else None)"

definition children :: "(string \<times> bool) list \<Rightarrow> string \<Rightarrow> string list" where
  "children w p =
     map (\<lambda>q. drop (length p + 1) q)
       (filter (\<lambda>q. length p + 1 < length q \<and> take (length p + 1) q = p @ ''/''
                  \<and> CHR ''/'' \<notin> set (drop (length p + 1) q)) (map fst w))"

definition posix_remote ::
  "string \<Rightarrow> string \<Rightarrow> (string \<times> bool) list \<Rightarrow> string option \<times> (string \<times> bool) list" where
  "posix_remote u cmd w =
     (if u \<noteq> LINUX_USER then (None, w)
      else if cmd = ''uname -a'' then (Some (''Linux'' @ [CHR 0x0A]), w)
      else if cmd = ''conda init'' then (Some (''no change'' @ [CHR 0x0A]), w)
      else case strip_affix (''if [[ -e '' @ sq) (sq @ '' ]]; then echo Yes; fi'') cmd of
        Some p \<Rightarrow> (Some (if p \<in> set (map fst w) then ''Yes'' @ [CHR 0x0A] else []), w)
      | None \<Rightarrow>
     (case strip_affix (''if [[ -d '' @ sq) (sq @ '' ]]; then echo Yes; fi'') cmd of
        Some p \<Rightarrow> (Some (if (p, True) \<in> set w then ''Yes'' @ [CHR 0x0A] else []), w)
      | None \<Rightarrow>
     (case strip_affix ''mkdir -p '' [] cmd of
        Some p \<Rightarrow> (if (p, False) \<in> set w then (None, w)
                   else (Some [], if (p, True) \<in> set w then w else w @ [(p, True)]))
      | None \<Rightarrow>
     (case strip_affix ''ls -1A '' [] cmd of
        Some p \<Rightarrow> (if (p, True) \<in> set w
                   then (Some (concat (map (\<lambda>n. n @ [CHR 0x0A]) (children w p))), w)
                   else if (p, False) \<in> set w then (Some (p @ [CHR 0x0A]), w)
                   else (None, w))
      | None \<Rightarrow> (if endswith cmd ''|| true'' then (Some [], w) else (None, w))))))"

definition posix :: "(string \<times> bool) list env" where
  "posix = \<lparr>remote = posix_remote, elapse = (\<lambda>n w. w), localfs = (\<lambda>op w. (True, w)),
     os_path_join = (\<lambda>a b. a @ ''/'' @ b)\<rparr>"

text \<open>
  Worlds of the simulated machine: one where nothing of sisyphus exists, and one with the
  job directories of three packages, \<open>done\<close> (built), \<open>bad\<close> (failed) and \<open>new\<close> (unpacked,
  not started).
\<close>

definition bare_box :: "(string \<times> bool) list" where
  "bare_box = [(''/tmp'', True)]"

definition jobs_box :: "(string \<times> bool) list" where
  "jobs_box = [(''/tmp'', True), (''/tmp/sisyphus'', True),
     (''/tmp/sisyphus/done'', True), (''/tmp/sisyphus/done/build.log'', False),
     (''/tmp/sisyphus/done/build.ready'', False),
     (''/tmp/sisyphus/bad'', True), (''/tmp/sisyphus/bad/build.log'', False),
     (''/tmp/sisyphus/bad/build.failed'', False),
     (''/tmp/sisyphus/new'', True), (''/tmp/sisyphus/new/feedstock'', True)]"

text \<open>A machine that cannot be reached: every command fails.\<close>

definition unreachable :: "unit env" where
  "unreachable = \<lparr>remote = (\<lambda>u cmd w. (None, w)), elapse = (\<lambda>n w. w),
     localfs = (\<lambda>op w. (False, w)), os_path_join = (\<lambda>a b. a @ ''/'' @ b)\<rparr>"

text \<open>
  The two probes of the constructor: \<open>uname -a\<close> as the Linux user on the fresh state, and
  \<open>ver\<close> as the Windows user on the state that the first probe leaves.
\<close>

definition posix_probe :: "'w env \<Rightarrow> 'w \<Rightarrow> bool \<times> 'w session" where
  "posix_probe env w = test_connection env LINUX_USER ''uname -a'' LINUX_TYPE (fresh w)"

definition windows_probe :: "'w env \<Rightarrow> 'w \<Rightarrow> bool \<times> 'w session" where
  "windows_probe env w =
     test_connection env WINDOWS_USER ''ver'' WINDOWS_TYPE (snd (posix_probe env w))"

subsection \<open>A simulated Windows machine\<close>

text \<open>
  The same for Windows: it accepts the user \<open>dev-admin\<close> only and understands \<open>ver\<close>, the
  initialisation of conda, the two probes, \<open>mkdir\<close> and \<open>dir /b\<close>, which fails on a path
  that does not exist. Its lines end with a carriage return and a line feed.
\<close>

definition win_children :: "(string \<times> bool) list \<Rightarrow> string \<Rightarrow> string list" where
  "win_children w p =
     map (\<lambda>q. drop (length p + 1) q)
       (filter (\<lambda>q. length p + 1 < length q \<and> take (length p + 1) q = p @ bs
                  \<and> CHR 0x5C \<notin> set (drop (length p + 1) q)) (map fst w))"

definition windows_remote ::
  "string \<Rightarrow> string \<Rightarrow> (string \<times> bool) list \<Rightarrow> string option \<times> (string \<times> bool) list" where
  "windows_remote u cmd w =
     (if u \<noteq> WINDOWS_USER then (None, w)
      else if cmd = ''ver'' then (Some (''Microsoft Windows'' @ [CHR 0x0D, CHR 0x0A]), w)
      else if cmd = ''C:'' @ bs @ ''miniconda3'' @ bs @ ''Scripts'' @ bs @ ''conda.exe init''
      then (Some (''no change'' @ [CHR 0x0D, CHR 0x0A]), w)
      else case strip_affix (''if exist '' @ dq) (bs @ ''*'' @ dq @ '' echo Yes'') cmd of
        Some p \<Rightarrow> (Some (if (p, True) \<in> set w then ''Yes'' @ [CHR 0x0D, CHR 0x0A] else []), w)
      | None \<Rightarrow>
     (case strip_affix (''if exist '' @ dq) (dq @ '' echo Yes'') cmd of
        Some p \<Rightarrow> (Some (if p \<in> set (map fst w) then ''Yes'' @ [CHR 0x0D, CHR 0x0A] else []), w)
      | None \<Rightarrow>
     (case strip_affix (''mkdir '' @ dq) dq cmd of
        Some p \<Rightarrow> (if p \<in> set (map fst w) then (None, w) else (Some [], w @ [(p, True)]))
      | None \<Rightarrow>
     (case strip_affix (''dir /b '' @ dq) dq cmd of
        Some p \<Rightarrow> (if (p, True) \<in> set w
                   then (Some (concat (map (\<lambda>n. n @ [CHR 0x0D, CHR 0x0A]) (win_children w p))), w)
                   else if (p, False) \<in> set w then (Some (p @ [CHR 0x0D, CHR 0x0A]), w)
                   else (None, w))
      | None \<Rightarrow> (None, w)))))"

definition windows :: "(string \<times> bool) list env" where
  "windows = \<lparr>remote = windows_remote, elapse = (\<lambda>n w. w), localfs = (\<lambda>op w. (True, w)),
     os_path_join = (\<lambda>a b. a @ ''/'' @ b)\<rparr>"

definition bare_windows_box :: "(string \<times> bool) list" where
  "bare_windows_box = [(bs @ ''tmp'', True)]"

subsection \<open>What a remote shell is expected to do\<close>

text \<open>
  The commands that \<open>exists\<close>, \<open>isdir\<close> and \<open>mkdir\<close> send for a path, on a Linux host and
  otherwise on a Windows host.
\<close>

definition exists_cmd :: "host \<Rightarrow> string \<Rightarrow> string" where
  "exists_cmd h p =
     (if type h = LINUX_TYPE then ''if [[ -e '' @ sq @ p @ sq @ '' ]]; then echo Yes; fi''
      else ''if exist '' @ dq @ p @ dq @ '' echo Yes'')"

definition isdir_cmd :: "host \<Rightarrow> string \<Rightarrow> string" where
  "isdir_cmd h p =
     (if type h = LINUX_TYPE then ''if [[ -d '' @ sq @ p @ sq @ '' ]]; then echo Yes; fi''
      else ''if exist '' @ dq @ p @ bs @ ''*'' @ dq @ '' echo Yes'')"

definition mkdir_cmd :: "host \<Rightarrow> string \<Rightarrow> string" where
  "mkdir_cmd h p =
     (if type h = LINUX_TYPE then ''mkdir -p '' @ p else ''mkdir '' @ dq @ p @ dq)"

text \<open>The command succeeds and its answer, stripped, is \<open>Yes\<close>.\<close>

definition answers_yes :: "'w env \<Rightarrow> string \<Rightarrow> string \<Rightarrow> 'w \<Rightarrow> bool" where
  "answers_yes env u cmd w =
     (case fst (remote env u cmd w) of None \<Rightarrow> False | Some out \<Rightarrow> rstrip (lstrip out) = ''Yes'')"

text \<open>
  Two expectations on the remote machine, for a path: the probes change nothing, and after
  the command that creates the directory has succeeded both probes answer \<open>Yes\<close>.
\<close>

definition probes_read_only :: "'w env \<Rightarrow> host \<Rightarrow> string \<Rightarrow> bool" where
  "probes_read_only env h p =
     (\<forall>u w. snd (remote env u (exists_cmd h p) w) = w \<and> snd (remote env u (isdir_cmd h p) w) = w)"

definition creation_takes_effect :: "'w env \<Rightarrow> host \<Rightarrow> string \<Rightarrow> bool" where
  "creation_takes_effect env h p =
     (\<forall>u w. fst (remote env u (mkdir_cmd h p) w) \<noteq> None \<longrightarrow>
        answers_yes env u (exists_cmd h p) (snd (remote env u (mkdir_cmd h p) w))
        \<and> answers_yes env u (isdir_cmd h p) (snd (remote env u (mkdir_cmd h p) w)))"

text \<open>
  A session of the Linux host on the simulated machine with the three job directories, and
  a world of the simulated Windows machine where the name of the session directory is taken
  by a file.
\<close>

definition jobs_session :: "(string \<times> bool) list session" where
  "jobs_session = session_of linux_host jobs_box"

definition collision_session :: "(string \<times> bool) list session" where
  "collision_session =
     session_of windows_host [(bs @ ''tmp'', True), (bs @ ''tmp'' @ bs @ ''sisyphus'', False)]"

text \<open>The command that \<open>ls\<close> sends for a path.\<close>

definition ls_cmd :: "host \<Rightarrow> string \<Rightarrow> string" where
  "ls_cmd h p = (if type h = LINUX_TYPE then ''ls -1A '' @ p else ''dir /b '' @ dq @ p @ dq)"

text \<open>
  The effects on the local machine: the transfer of a file from the remote machine, the
  extraction of an archive, and the creation and deletion of local files and directories.
\<close>

fun is_local :: "event \<Rightarrow> bool" where
  "is_local (Local op ok) = True"
| "is_local _ = False"

definition local_events :: "event list \<Rightarrow> event list" where
  "local_events evs = filter is_local evs"

text \<open>The commands that were run, in order.\<close>

fun command_of :: "event \<Rightarrow> string list" where
  "command_of (Run u cmd r) = [cmd]"
| "command_of _ = []"

definition commands :: "event list \<Rightarrow> string list" where
  "commands evs = concat (map command_of evs)"

text \<open>
  In \<open>download\<close>: the directory of the artifacts of a package, an artifact, the names under
  which the artifacts of a listing go into the tarball, and the path of the tarball.
\<close>

definition artifact_dir :: "host \<Rightarrow> string \<Rightarrow> string" where
  "artifact_dir h package = path h [package, ''build'', pkgdir h]"

definition is_artifact :: "string \<Rightarrow> bool" where
  "is_artifact f = (endswith f ''.tar.bz2'' \<or> endswith f ''.conda'')"

definition artifact_files :: "host \<Rightarrow> string list \<Rightarrow> string list" where
  "artifact_files h listed = map (\<lambda>f. path_join h [pkgdir h, f]) (filter is_artifact listed)"

definition tarball :: "host \<Rightarrow> string \<Rightarrow> string" where
  "tarball h package = path_join h [topdir h, ''sisyphus_'' @ package @ ''_'' @ type h @ ''.tar'']"

text \<open>
  Worlds of the simulated Linux machine for the package \<open>foo\<close>: one where the build left
  one artifact in both formats, and one where it left no artifact.
\<close>

definition built_box :: "(string \<times> bool) list" where
  "built_box = [(''/tmp'', True), (''/tmp/sisyphus'', True), (''/tmp/sisyphus/foo'', True),
     (''/tmp/sisyphus/foo/build.log'', False), (''/tmp/sisyphus/foo/build.ready'', False),
     (''/tmp/sisyphus/foo/build'', True), (''/tmp/sisyphus/foo/build/linux-64'', True),
     (''/tmp/sisyphus/foo/build/linux-64/foo-1.0-0.tar.bz2'', False),
     (''/tmp/sisyphus/foo/build/linux-64/foo-1.0-0.conda'', False),
     (''/tmp/sisyphus/foo/build/linux-64/repodata.json'', False)]"

definition empty_build_box :: "(string \<times> bool) list" where
  "empty_build_box = [(''/tmp'', True), (''/tmp/sisyphus'', True), (''/tmp/sisyphus/foo'', True),
     (''/tmp/sisyphus/foo/build.log'', False), (''/tmp/sisyphus/foo/build.failed'', False),
     (''/tmp/sisyphus/foo/build'', True), (''/tmp/sisyphus/foo/build/linux-64'', True),
     (''/tmp/sisyphus/foo/build/linux-64/repodata.json'', False)]"

definition built_session :: "(string \<times> bool) list session" where
  "built_session = session_of linux_host built_box"

definition empty_build_session :: "(string \<times> bool) list session" where
  "empty_build_session = session_of linux_host empty_build_box"

subsection \<open>What the conversion tool is expected to do\<close>

text \<open>The command that \<open>transmute\<close> sends to convert a package to a format.\<close>

definition cph_cmd :: "string \<Rightarrow> string \<Rightarrow> string \<Rightarrow> string" where
  "cph_cmd dir pkg ext = ACTIVATE @ '' cd '' @ dir @ '' && cph t '' @ pkg @ '' '' @ ext"

text \<open>The names that the listing of a directory shows to the user of the host, in a world.\<close>

definition names :: "'w env \<Rightarrow> host \<Rightarrow> string \<Rightarrow> 'w \<Rightarrow> string list" where
  "names env h dir w =
     (case fst (remote env (user h) (ls_cmd h dir) w) of
        None \<Rightarrow> []
      | Some out \<Rightarrow> splitlines (rstrip (lstrip out)))"

text \<open>
  The listing of the directory succeeds, changes nothing, shows no name twice, and is the
  same after a sleep of zero seconds.
\<close>

definition listing_works :: "'w env \<Rightarrow> host \<Rightarrow> string \<Rightarrow> bool" where
  "listing_works env h dir =
     (\<forall>w. fst (remote env (user h) (ls_cmd h dir) w) \<noteq> None
        \<and> snd (remote env (user h) (ls_cmd h dir) w) = w
        \<and> distinct (names env h dir w)
        \<and> names env h dir (elapse env 0 w) = names env h dir w)"

text \<open>
  The conversion of a package that is in the directory succeeds and adds the package in the
  other format to the directory, and nothing else.
\<close>

definition converts :: "'w env \<Rightarrow> host \<Rightarrow> string \<Rightarrow> string \<Rightarrow> string \<Rightarrow> bool" where
  "converts env h dir from to =
     (\<forall>w b. b @ from \<in> set (names env h dir w) \<longrightarrow>
        fst (remote env (user h) (cph_cmd dir (b @ from) to) w) \<noteq> None
        \<and> set (names env h dir (snd (remote env (user h) (cph_cmd dir (b @ from) to) w)))
            = insert (b @ to) (set (names env h dir w)))"

subsection \<open>A simulated machine with three packages\<close>

text \<open>
  A machine for \<open>transmute\<close>: the directory of the artifacts of the package \<open>foo\<close> holds
  \<open>a\<close> in both formats, \<open>b\<close> as \<open>.tar.bz2\<close> only and \<open>c\<close> as \<open>.conda\<close> only. Its world says
  whether \<open>b.conda\<close> and \<open>c.tar.bz2\<close> have been made. It understands the listing of that
  directory and the conversion of a package that is in it.
\<close>

definition three_dir :: string where
  "three_dir = artifact_dir linux_host ''foo''"

definition three_names :: "bool \<times> bool \<Rightarrow> string list" where
  "three_names w =
     [''a.tar.bz2'', ''a.conda'', ''b.tar.bz2'', ''c.conda'']
     @ (if fst w then [''b.conda''] else []) @ (if snd w then [''c.tar.bz2''] else [])"

definition three_convert :: "string \<Rightarrow> bool \<times> bool \<Rightarrow> string option \<times> (bool \<times> bool)" where
  "three_convert job w =
     (if job = ''b.tar.bz2 .conda'' then (Some [], (True, snd w))
      else if job = ''c.conda .tar.bz2'' then (Some [], (fst w, True))
      else if job = ''a.tar.bz2 .conda'' \<or> job = ''a.conda .tar.bz2'' then (Some [], w)
      else if job = ''b.conda .tar.bz2'' \<and> fst w then (Some [], w)
      else if job = ''c.tar.bz2 .conda'' \<and> snd w then (Some [], w)
      else (None, w))"

definition three_remote :: "string \<Rightarrow> string \<Rightarrow> bool \<times> bool \<Rightarrow> string option \<times> (bool \<times> bool)" where
  "three_remote u cmd w =
     (if u \<noteq> LINUX_USER then (None, w)
      else if cmd = ''ls -1A '' @ three_dir
      then (Some (concat (map (\<lambda>n. n @ [CHR 0x0A]) (three_names w))), w)
      else case strip_affix (ACTIVATE @ '' cd '' @ three_dir @ '' && cph t '') [] cmd of
             None \<Rightarrow> (None, w)
           | Some job \<Rightarrow> three_convert job w)"

definition three :: "(bool \<times> bool) env" where
  "three = \<lparr>remote = three_remote, elapse = (\<lambda>n w. w), localfs = (\<lambda>op w. (True, w)),
     os_path_join = (\<lambda>a b. a @ ''/'' @ b)\<rparr>"

definition three_session :: "(bool \<times> bool) session" where
  "three_session = session_of linux_host (False, False)"


section \<open>Properties\<close>

subsection \<open>Joining paths\<close>

lemma clean_append: "clean sep acc (xs @ ys) = clean sep (clean sep acc xs) ys"
  by (induction xs arbitrary: acc) auto

lemma doubled_snoc:
  "doubled sep (acc @ [c]) \<longleftrightarrow> doubled sep acc \<or> (acc \<noteq> [] \<and> [last acc] = sep \<and> [c] = sep)"
  by (induction sep acc rule: doubled.induct) auto

lemma doubled_appendI1: "doubled sep xs \<Longrightarrow> doubled sep (xs @ ys)"
  by (induction sep xs rule: doubled.induct) auto

lemma doubled_appendI2: "doubled sep ys \<Longrightarrow> doubled sep (xs @ ys)"
proof (induction xs)
  case Nil then show ?case by simp
next
  case (Cons x xs)
  then show ?case by (cases "xs @ ys") auto
qed

lemma clean_not_doubled: "\<not> doubled sep acc \<Longrightarrow> \<not> doubled sep (clean sep acc xs)"
proof (induction xs arbitrary: acc)
  case Nil then show ?case by simp
next
  case (Cons c cs)
  show ?case
  proof (cases "length acc > 0 \<and> [c] = sep \<and> [last acc] = sep")
    case True
    then have "clean sep acc (c # cs) = clean sep acc cs" by simp
    then show ?thesis using Cons.IH[OF Cons.prems] by simp
  next
    case False
    then have e: "clean sep acc (c # cs) = clean sep (acc @ [c]) cs" by auto
    have "\<not> doubled sep (acc @ [c])"
      using False Cons.prems unfolding doubled_snoc by blast
    then show ?thesis using Cons.IH[of "acc @ [c]"] e by simp
  qed
qed

lemma clean_fixed: "\<not> doubled sep (acc @ xs) \<Longrightarrow> clean sep acc xs = acc @ xs"
proof (induction xs arbitrary: acc)
  case Nil then show ?case by simp
next
  case (Cons c cs)
  have "\<not> doubled sep ((acc @ [c]) @ cs)" using Cons.prems by simp
  then have nd: "\<not> doubled sep (acc @ [c])" using doubled_appendI1 by blast
  then have "\<not> (length acc > 0 \<and> [c] = sep \<and> [last acc] = sep)"
    unfolding doubled_snoc by blast
  then have "clean sep acc (c # cs) = clean sep (acc @ [c]) cs" by auto
  moreover have "clean sep (acc @ [c]) cs = (acc @ [c]) @ cs"
    using Cons.IH[of "acc @ [c]"] Cons.prems by simp
  ultimately show ?case by simp
qed

lemma clean_idem: "clean sep [] (clean sep [] xs) = clean sep [] xs"
  using clean_fixed[of sep "[]" "clean sep [] xs"] clean_not_doubled[of sep "[]" xs] by simp

lemma path_join_nested: "path_join h [path_join h [a, b], c] = path_join h [a, b, c]"
proof -
  let ?s = "separator h"
  let ?X = "clean ?s [] (a @ ?s @ b)"
  have "clean ?s [] (?X @ ?s @ c) = clean ?s (clean ?s [] ?X) (?s @ c)"
    by (rule clean_append)
  also have "\<dots> = clean ?s ?X (?s @ c)"
    by (simp only: clean_idem)
  also have "\<dots> = clean ?s [] ((a @ ?s @ b) @ ?s @ c)"
    by (rule clean_append[symmetric])
  finally show ?thesis by (simp add: path_join_def)
qed

lemma clean_sep_twice:
  assumes "length sep = 1"
  shows "clean sep acc (sep @ sep @ b) = clean sep acc (sep @ b)"
proof -
  obtain c where c: "sep = [c]" using assms by (cases sep) auto
  show ?thesis unfolding c by auto
qed

lemma path_join_empty_segment:
  assumes "length (separator h) = 1"
  shows "path_join h [a, [], b] = path_join h [a, b]"
proof -
  let ?s = "separator h"
  have "clean ?s [] (a @ ?s @ ?s @ b) = clean ?s (clean ?s [] a) (?s @ ?s @ b)"
    by (rule clean_append)
  also have "\<dots> = clean ?s (clean ?s [] a) (?s @ b)"
    by (rule clean_sep_twice[OF assms])
  also have "\<dots> = clean ?s [] (a @ ?s @ b)"
    by (rule clean_append[symmetric])
  finally show ?thesis by (simp add: path_join_def)
qed

lemma doubled_sub: 
  assumes "length sep = 1" shows "doubled sep (xs @ sep @ sep @ ys)"
proof -
  obtain c where c: "sep = [c]" using assms by (cases sep) auto
  have "doubled sep (sep @ sep @ ys)" unfolding c by simp
  then show ?thesis by (rule doubled_appendI2)
qed


lemma join_snoc: "xs \<noteq> [] \<Longrightarrow> join sep (xs @ [c]) = join sep xs @ sep @ c"
  by (induction sep xs rule: join.induct) auto

lemma path_join_snoc:
  assumes "xs \<noteq> []"
  shows "path_join h [path_join h xs, c] = path_join h (xs @ [c])"
proof -
  let ?s = "separator h"
  let ?X = "clean ?s [] (join ?s xs)"
  have "clean ?s [] (?X @ ?s @ c) = clean ?s (clean ?s [] ?X) (?s @ c)"
    by (rule clean_append)
  also have "\<dots> = clean ?s ?X (?s @ c)"
    by (simp only: clean_idem)
  also have "\<dots> = clean ?s [] (join ?s xs @ ?s @ c)"
    by (rule clean_append[symmetric])
  finally show ?thesis by (simp add: path_join_def join_snoc[OF assms])
qed

text \<open>
  C6: joining is associative, \<open>path_join(path_join(a, b), c) = path_join(a, b, c)\<close>, and an
  empty segment is collapsed, \<open>path_join(a, "", b) = path_join(a, b)\<close>, for all strings
  \<open>a\<close>, \<open>b\<close>, \<open>c\<close> and a separator of one character, as the separator of every host is.
\<close>

theorem path_join_associative_collapsing:
  assumes "length (separator h) = 1"
  shows "path_join h [path_join h [a, b], c] = path_join h [a, b, c]
     \<and> path_join h [a, [], b] = path_join h [a, b]"
  using path_join_nested[of h a b c] path_join_empty_segment[OF assms, of a b] by simp

theorem path_join_associative_collapsing_witness:
  "length (separator linux_host) = 1
   \<and> path_join linux_host [path_join linux_host [''/tmp/'', ''/sisyphus''], ''foo'']
       = path_join linux_host [''/tmp/'', ''/sisyphus'', ''foo'']
   \<and> path_join linux_host [''/tmp/'', ''/sisyphus'', ''foo''] = ''/tmp/sisyphus/foo''
   \<and> path_join linux_host [''a'', [], ''b''] = path_join linux_host [''a'', ''b'']
   \<and> path_join linux_host [''a'', ''b''] = ''a/b''"
proof -
  have h: "length (separator linux_host) = 1" by (simp add: linux_host_def)
  show ?thesis
    using h path_join_associative_collapsing[OF h, of "''/tmp/''" "''/sisyphus''" "''foo''"]
      path_join_associative_collapsing[OF h, of "''a''" "''b''" "''c''"]
    by (simp add: linux_host_def path_join_def)
qed

text \<open>
  C10: for every list of segments, whatever separators the segments contain, the result of
  \<open>path_join\<close> has no two separators next to each other, and \<open>path_join\<close> of the result
  alone is the result.
\<close>

theorem path_join_no_double_separator:
  assumes "length (separator h) = 1"
  shows "\<not> (\<exists>xs ys. path_join h paths = xs @ separator h @ separator h @ ys)
     \<and> path_join h [path_join h paths] = path_join h paths"
proof -
  have "\<not> doubled (separator h) (path_join h paths)"
    unfolding path_join_def using clean_not_doubled[of "separator h" "[]"] by simp
  then have "\<not> (\<exists>xs ys. path_join h paths = xs @ separator h @ separator h @ ys)"
    using doubled_sub[OF assms] by metis
  moreover have "path_join h [path_join h paths] = path_join h paths"
    by (simp add: path_join_def clean_idem)
  ultimately show ?thesis by simp
qed

theorem path_join_no_double_separator_witness:
  "length (separator windows_host) = 1
   \<and> \<not> (\<exists>xs ys. path_join windows_host [bs @ bs @ ''tmp'' @ bs, bs @ ''sisyphus'' @ bs @ bs, bs]
          = xs @ separator windows_host @ separator windows_host @ ys)
   \<and> path_join windows_host [bs @ bs @ ''tmp'' @ bs, bs @ ''sisyphus'' @ bs @ bs, bs]
       = bs @ ''tmp'' @ bs @ ''sisyphus'' @ bs
   \<and> path_join windows_host
        [path_join windows_host [bs @ bs @ ''tmp'' @ bs, bs @ ''sisyphus'' @ bs @ bs, bs]]
       = path_join windows_host [bs @ bs @ ''tmp'' @ bs, bs @ ''sisyphus'' @ bs @ bs, bs]"
proof -
  have h: "length (separator windows_host) = 1" by (simp add: windows_host_def bs_def)
  have e: "path_join windows_host [bs @ bs @ ''tmp'' @ bs, bs @ ''sisyphus'' @ bs @ bs, bs]
       = bs @ ''tmp'' @ bs @ ''sisyphus'' @ bs"
    by (simp add: windows_host_def path_join_def bs_def)
  show ?thesis
    using h e path_join_no_double_separator[OF h,
        of "[bs @ bs @ ''tmp'' @ bs, bs @ ''sisyphus'' @ bs @ bs, bs]"]
    by simp
qed

subsection \<open>Sessions\<close>

declare wait_loop.simps [code]

lemma andthen_Return [simp]: "andthen (Return a, s) f = f a s"
  by (simp add: andthen_def)

lemma andthen_Raise [simp]: "andthen (Raise e, s) f = (Raise e, s)"
  by (simp add: andthen_def)

lemma logging_fields [simp]:
  "world (logging l m s) = world s" "connection (logging l m s) = connection s"
  "trace (logging l m s) = trace s"
  by (simp_all add: logging_def)

lemma fold_logging_fields [simp]:
  "world (fold (logging l) ms s) = world s" "connection (fold (logging l) ms s) = connection s"
  "trace (fold (logging l) ms s) = trace s"
  by (induction ms arbitrary: s) simp_all

lemma print_fields [simp]:
  "world (print_dot s) = world s" "connection (print_dot s) = connection s"
  "trace (print_dot s) = trace s"
  "world (print_newline s) = world s" "connection (print_newline s) = connection s"
  "trace (print_newline s) = trace s"
  by (simp_all add: print_dot_def print_newline_def)

lemma effect_fields [simp]:
  "world (effect e s) = world s" "connection (effect e s) = connection s"
  "trace (effect e s) = trace s @ [e]"
  by (simp_all add: effect_def)

lemma run_fields:
  "world (snd (run env cmd quiet s)) = snd (remote env (connection s) cmd (world s))"
  "connection (snd (run env cmd quiet s)) = connection s"
  "trace (snd (run env cmd quiet s))
     = trace s @ [Run (connection s) cmd (fst (remote env (connection s) cmd (world s)))]"
  by (simp_all add: run_def Let_def split: option.splits)

lemma run_outcome:
  "fst (run env cmd quiet s) =
     (case fst (remote env (connection s) cmd (world s)) of
        None \<Rightarrow> if quiet then Return None else Raise (SystemExit 1)
      | Some out \<Rightarrow> Return (Some (rstrip (lstrip out))))"
  by (simp add: run_def Let_def split: option.splits)

lemma lines_of_fields [simp]: "snd (lines_of out s) = s"
  by (simp add: lines_of_def split: option.splits)

lemma andthen_snd_lines_of: "snd (andthen m lines_of) = snd m"
  by (cases m; cases "fst m") (auto simp: andthen_def split: outcome.splits)

lemma ls_fields:
  assumes "ls env h p s = (Return files, s1)"
  shows "\<exists>cmd r. trace s1 = trace s @ [Run (connection s) cmd r]"
    and "connection s1 = connection s"
proof -
  from assms have t: "type h = LINUX_TYPE \<or> type h = WINDOWS_TYPE"
    by (auto simp: ls_def split: if_splits)
  obtain cmd where c: "ls env h p s = andthen (run env cmd False s) lines_of"
    using t by (auto simp: ls_def LINUX_TYPE_def WINDOWS_TYPE_def)
  have "s1 = snd (run env cmd False s)"
    using assms c andthen_snd_lines_of[of "run env cmd False s"] by simp
  then show "\<exists>cmd r. trace s1 = trace s @ [Run (connection s) cmd r]"
    and "connection s1 = connection s"
    by (auto simp: run_fields)
qed


lemma andthen_run_fails:
  assumes "fst (remote env (connection s) cmd (world s)) = None"
  shows "fst (andthen (run env cmd False s) f) = Raise (SystemExit 1)"
proof -
  have "fst (run env cmd False s) = Raise (SystemExit 1)"
    using assms by (simp add: run_outcome)
  then show ?thesis
    by (cases "run env cmd False s") (simp add: andthen_def)
qed

lemma andthen_fst_Raise: "fst m = Raise e \<Longrightarrow> fst (andthen m f) = Raise e"
  by (cases m) (simp add: andthen_def)

lemma types_differ: "WINDOWS_TYPE \<noteq> LINUX_TYPE"
  by (simp add: WINDOWS_TYPE_def LINUX_TYPE_def)

lemma ls_linux:
  "type h = LINUX_TYPE \<Longrightarrow> ls env h p s = andthen (run env (''ls -1A '' @ p) False s) lines_of"
  by (simp add: ls_def)

lemma ls_windows:
  "type h = WINDOWS_TYPE
   \<Longrightarrow> ls env h p s = andthen (run env (''dir /b '' @ dq @ p @ dq) False s) lines_of"
  by (simp add: ls_def types_differ)

lemma ls_Return_type:
  "ls env h p s = (Return files, s1) \<Longrightarrow> type h = LINUX_TYPE \<or> type h = WINDOWS_TYPE"
  by (auto simp: ls_def split: if_splits)

lemma run_Raise: "fst (run env cmd False s) = Raise e \<Longrightarrow> e = SystemExit 1"
  by (simp add: run_outcome split: option.splits)

lemma andthen_cases:
  "andthen m f = (case fst m of Return a \<Rightarrow> f a (snd m) | Raise e \<Rightarrow> (Raise e, snd m))"
  by (cases m) (simp add: andthen_def split: outcome.splits)

lemma is_yes_fields [simp]:
  "world (snd (is_yes a b r s)) = world s" "connection (snd (is_yes a b r s)) = connection s"
  "trace (snd (is_yes a b r s)) = trace s"
  by (simp_all add: is_yes_def)

lemma is_yes_outcome [simp]: "fst (is_yes a b r s) = Return (r = Some ''Yes'')"
  by (simp add: is_yes_def)

lemma probe_fields:
  "connection (snd (andthen (run env cmd False s) (is_yes a b))) = connection s"
  "world (snd (andthen (run env cmd False s) (is_yes a b)))
     = snd (remote env (connection s) cmd (world s))"
  "trace (snd (andthen (run env cmd False s) (is_yes a b)))
     = trace s @ [Run (connection s) cmd (fst (remote env (connection s) cmd (world s)))]"
  "fst (andthen (run env cmd False s) (is_yes a b)) = Raise e \<Longrightarrow> e = SystemExit 1"
  using run_fields[of env cmd False s] run_Raise[of env cmd s e]
  by (auto simp: andthen_cases split: outcome.splits)

lemma exists_connection: "connection (snd (exists env h p s)) = connection s"
  by (simp add: exists_def Let_def probe_fields)

lemma isdir_connection: "connection (snd (isdir env h p s)) = connection s"
  by (simp add: isdir_def Let_def probe_fields)

lemma exists_Raise:
  "type h = LINUX_TYPE \<or> type h = WINDOWS_TYPE \<Longrightarrow> fst (exists env h p s) = Raise e
   \<Longrightarrow> e = SystemExit 1"
  by (auto simp: exists_def Let_def dest: probe_fields(4) split: if_splits)

lemma isdir_Raise:
  "type h = LINUX_TYPE \<or> type h = WINDOWS_TYPE \<Longrightarrow> fst (isdir env h p s) = Raise e
   \<Longrightarrow> e = SystemExit 1"
  by (auto simp: isdir_def Let_def dest: probe_fields(4) split: if_splits)

lemma run_unit_fields:
  "connection (snd (andthen (run env cmd False s) (\<lambda>_ s2. (Return (), s2)))) = connection s"
  "fst (andthen (run env cmd False s) (\<lambda>_ s2. (Return (), s2))) = Raise e \<Longrightarrow> e = SystemExit 1"
  using run_fields[of env cmd False s] run_Raise[of env cmd s e]
  by (auto simp: andthen_cases split: outcome.splits)

lemma mkdir_connection: "connection (snd (mkdir env h p s)) = connection s"
proof -
  obtain a s1 where e: "exists env h p s = (a, s1)" by (cases "exists env h p s")
  then have c1: "connection s1 = connection s" using exists_connection[of env h p s] by simp
  obtain b s2 where d: "isdir env h p s1 = (b, s2)" by (cases "isdir env h p s1")
  then have c2: "connection s2 = connection s1" using isdir_connection[of env h p s1] by simp
  show ?thesis
    using c1 c2 run_unit_fields(1)[of env _ s1]
    by (cases a; cases b) (auto simp: mkdir_def e d)
qed

lemma mkdir_Raise:
  assumes "type h = LINUX_TYPE \<or> type h = WINDOWS_TYPE" and "fst (mkdir env h p s) = Raise e"
  shows "e = SystemExit 1"
proof -
  obtain a s1 where e: "exists env h p s = (a, s1)" by (cases "exists env h p s")
  obtain b s2 where d: "isdir env h p s1 = (b, s2)" by (cases "isdir env h p s1")
  have ra: "a = Raise x \<Longrightarrow> x = SystemExit 1" for x
    using exists_Raise[OF assms(1), of env p s x] e by simp
  have rb: "b = Raise x \<Longrightarrow> x = SystemExit 1" for x
    using isdir_Raise[OF assms(1), of env p s1 x] d by simp
  show ?thesis
    using assms(2) ra rb run_unit_fields(2)[of env _ s1 e]
    by (cases a; cases b) (auto simp: mkdir_def e d split: if_splits)
qed

lemma test_connection_fields:
  "fst (test_connection env u cmd t s) = (fst (remote env u cmd (world s)) \<noteq> None)"
  "world (snd (test_connection env u cmd t s)) = snd (remote env u cmd (world s))"
  "connection (snd (test_connection env u cmd t s)) = u"
  by (auto simp: test_connection_def Let_def split: option.splits)


subsection \<open>The status of a build\<close>

text \<open>
  C1: the status is a function of which of the three markers are in the listing of the job
  directory, and it is the status that the specification derives: \<open>build.ready\<close> gives
  Complete, otherwise \<open>build.failed\<close> gives Failed, otherwise \<open>build.log\<close> gives Building,
  otherwise the job is not started.
\<close>

theorem status_by_markers:
  assumes "ls env h (path h [package]) s = (Return files, s1)"
  shows "status env h package s =
    (Return (status_name (spec_status (''build.log'' \<in> set files) (''build.ready'' \<in> set files)
       (''build.failed'' \<in> set files))), s1)"
  by (simp add: status_def assms spec_status_def)

theorem status_by_markers_witness:
  "ls posix linux_host (path linux_host [''bad'']) (session_of linux_host jobs_box)
     = (Return [''build.log'', ''build.failed''],
        snd (ls posix linux_host (path linux_host [''bad'']) (session_of linux_host jobs_box)))
   \<and> status posix linux_host ''bad'' (session_of linux_host jobs_box)
     = (Return (status_name (spec_status (''build.log'' \<in> set [''build.log'', ''build.failed''])
          (''build.ready'' \<in> set [''build.log'', ''build.failed''])
          (''build.failed'' \<in> set [''build.log'', ''build.failed'']))),
        snd (ls posix linux_host (path linux_host [''bad'']) (session_of linux_host jobs_box)))
   \<and> fst (status posix linux_host ''bad'' (session_of linux_host jobs_box)) = Return ''Failed''"
proof -
  have l: "ls posix linux_host (path linux_host [''bad'']) (session_of linux_host jobs_box)
     = (Return [''build.log'', ''build.failed''],
        snd (ls posix linux_host (path linux_host [''bad'']) (session_of linux_host jobs_box)))"
    by code_simp
  have v: "fst (status posix linux_host ''bad'' (session_of linux_host jobs_box)) = Return ''Failed''"
    by code_simp
  from status_by_markers[OF l] l v show ?thesis by blast
qed

text \<open>
  C2: when the listing of the job directory shows \<open>build.ready\<close> or \<open>build.failed\<close>, \<open>wait\<close>
  returns at that poll, true for \<open>build.ready\<close> and false otherwise, without an exception.
  This holds at every turn of the loop, whatever the two flags are; the only effect of the
  call is the command of the listing: no sleep and no new connection.
\<close>

theorem wait_terminal:
  assumes "ls env h (path h [package]) s = (Return files, s1)"
    and "''build.ready'' \<in> set files \<or> ''build.failed'' \<in> set files"
  shows "\<exists>s2 cmd r. wait_loop env h package waiting_to_start waiting_to_finish s
            = Some (Return (''build.ready'' \<in> set files), s2)
          \<and> wait env h package s = Some (Return (''build.ready'' \<in> set files), s2)
          \<and> trace s2 = trace s @ [Run (connection s) cmd r]
          \<and> world s2 = world s1"
proof -
  obtain cmd r where t: "trace s1 = trace s @ [Run (connection s) cmd r]"
    using ls_fields(1)[OF assms(1)] by blast
  show ?thesis
  proof (cases "''build.ready'' \<in> set files")
    case True
    then have st: "status env h package s = (Return ''Complete'', s1)"
      by (simp add: status_def assms(1))
    have "\<And>a b. wait_loop env h package a b s
        = Some (Return True, logging INFO ''Build complete'' (print_newline s1))"
      by (subst wait_loop.simps) (simp add: st)
    then show ?thesis using True t by (simp add: wait_def)
  next
    case False
    then have st: "status env h package s = (Return ''Failed'', s1)"
      using assms by (simp add: status_def)
    have "\<And>a b. wait_loop env h package a b s
        = Some (Return False, logging ERROR ''Build failed'' (print_newline s1))"
      by (subst wait_loop.simps) (simp add: st)
    then show ?thesis using False t by (simp add: wait_def)
  qed
qed

theorem wait_terminal_witness:
  "(ls posix linux_host (path linux_host [''done'']) (session_of linux_host jobs_box)
     = (Return [''build.log'', ''build.ready''],
        snd (ls posix linux_host (path linux_host [''done'']) (session_of linux_host jobs_box)))
    \<and> (''build.ready'' \<in> set [''build.log'', ''build.ready'']
        \<or> ''build.failed'' \<in> set [''build.log'', ''build.ready''])
    \<and> (\<exists>s2 cmd r. wait_loop posix linux_host ''done'' False False (session_of linux_host jobs_box)
            = Some (Return (''build.ready'' \<in> set [''build.log'', ''build.ready'']), s2)
          \<and> wait posix linux_host ''done'' (session_of linux_host jobs_box)
            = Some (Return (''build.ready'' \<in> set [''build.log'', ''build.ready'']), s2)
          \<and> trace s2 = trace (session_of linux_host jobs_box)
               @ [Run (connection (session_of linux_host jobs_box)) cmd r]
          \<and> world s2 = world (snd (ls posix linux_host (path linux_host [''done''])
                                       (session_of linux_host jobs_box)))))
   \<and> (ls posix linux_host (path linux_host [''bad'']) (session_of linux_host jobs_box)
     = (Return [''build.log'', ''build.failed''],
        snd (ls posix linux_host (path linux_host [''bad'']) (session_of linux_host jobs_box)))
    \<and> (''build.ready'' \<in> set [''build.log'', ''build.failed'']
        \<or> ''build.failed'' \<in> set [''build.log'', ''build.failed''])
    \<and> (\<exists>s2 cmd r. wait_loop posix linux_host ''bad'' True False (session_of linux_host jobs_box)
            = Some (Return (''build.ready'' \<in> set [''build.log'', ''build.failed'']), s2)
          \<and> wait posix linux_host ''bad'' (session_of linux_host jobs_box)
            = Some (Return (''build.ready'' \<in> set [''build.log'', ''build.failed'']), s2)
          \<and> trace s2 = trace (session_of linux_host jobs_box)
               @ [Run (connection (session_of linux_host jobs_box)) cmd r]
          \<and> world s2 = world (snd (ls posix linux_host (path linux_host [''bad''])
                                       (session_of linux_host jobs_box)))))"
proof -
  have l1: "ls posix linux_host (path linux_host [''done'']) (session_of linux_host jobs_box)
     = (Return [''build.log'', ''build.ready''],
        snd (ls posix linux_host (path linux_host [''done'']) (session_of linux_host jobs_box)))"
    by code_simp
  have m1: "''build.ready'' \<in> set [''build.log'', ''build.ready'']
        \<or> ''build.failed'' \<in> set [''build.log'', ''build.ready'']"
    by simp
  have l2: "ls posix linux_host (path linux_host [''bad'']) (session_of linux_host jobs_box)
     = (Return [''build.log'', ''build.failed''],
        snd (ls posix linux_host (path linux_host [''bad'']) (session_of linux_host jobs_box)))"
    by code_simp
  have m2: "''build.ready'' \<in> set [''build.log'', ''build.failed'']
        \<or> ''build.failed'' \<in> set [''build.log'', ''build.failed'']"
    by simp
  from l1 m1 wait_terminal[OF l1 m1, of False False] l2 m2 wait_terminal[OF l2 m2, of True False]
  show ?thesis by blast
qed

text \<open>
  C4, as the code has it: when the job directory can be listed and shows none of the three
  markers, the status is \<open>Not started\<close>; when the command of the listing fails, as it does
  for a job directory that was never made, \<open>status\<close> exits with code 1.
\<close>

theorem status_not_started_or_exit:
  "(ls env h (path h [package]) s = (Return files, s1) \<and> ''build.ready'' \<notin> set files
      \<and> ''build.failed'' \<notin> set files \<and> ''build.log'' \<notin> set files
      \<longrightarrow> status env h package s = (Return ''Not started'', s1))
   \<and> (type h = LINUX_TYPE
      \<and> fst (remote env (connection s) (''ls -1A '' @ path h [package]) (world s)) = None
      \<longrightarrow> fst (status env h package s) = Raise (SystemExit 1))
   \<and> (type h = WINDOWS_TYPE
      \<and> fst (remote env (connection s) (''dir /b '' @ dq @ path h [package] @ dq) (world s)) = None
      \<longrightarrow> fst (status env h package s) = Raise (SystemExit 1))"
proof -
  have l: "fst (status env h package s) = Raise (SystemExit 1)"
    if "fst (ls env h (path h [package]) s) = Raise (SystemExit 1)"
    using that unfolding status_def by (rule andthen_fst_Raise)
  have "fst (ls env h (path h [package]) s) = Raise (SystemExit 1)"
    if "type h = LINUX_TYPE"
      and "fst (remote env (connection s) (''ls -1A '' @ path h [package]) (world s)) = None"
    using that by (simp add: ls_linux andthen_run_fails)
  moreover have "fst (ls env h (path h [package]) s) = Raise (SystemExit 1)"
    if "type h = WINDOWS_TYPE"
      and "fst (remote env (connection s) (''dir /b '' @ dq @ path h [package] @ dq) (world s))
             = None"
    using that by (simp add: ls_windows andthen_run_fails)
  moreover have "status env h package s = (Return ''Not started'', s1)"
    if "ls env h (path h [package]) s = (Return files, s1)" "''build.ready'' \<notin> set files"
      "''build.failed'' \<notin> set files" "''build.log'' \<notin> set files" for files
    using that by (simp add: status_def)
  ultimately show ?thesis using l by blast
qed

theorem status_not_started_or_exit_witness:
  "(ls posix linux_host (path linux_host [''new'']) (session_of linux_host jobs_box)
      = (Return [''feedstock''],
         snd (ls posix linux_host (path linux_host [''new'']) (session_of linux_host jobs_box)))
    \<and> ''build.ready'' \<notin> set [''feedstock''] \<and> ''build.failed'' \<notin> set [''feedstock'']
    \<and> ''build.log'' \<notin> set [''feedstock'']
    \<and> status posix linux_host ''new'' (session_of linux_host jobs_box)
      = (Return ''Not started'',
         snd (ls posix linux_host (path linux_host [''new'']) (session_of linux_host jobs_box))))
   \<and> (type linux_host = LINUX_TYPE
    \<and> fst (remote posix (connection (session_of linux_host jobs_box))
         (''ls -1A '' @ path linux_host [''foo'']) (world (session_of linux_host jobs_box))) = None
    \<and> fst (status posix linux_host ''foo'' (session_of linux_host jobs_box)) = Raise (SystemExit 1))
   \<and> (type windows_host = WINDOWS_TYPE
    \<and> fst (remote unreachable (connection (session_of windows_host ()))
         (''dir /b '' @ dq @ path windows_host [''foo''] @ dq) (world (session_of windows_host ())))
       = None
    \<and> fst (status unreachable windows_host ''foo'' (session_of windows_host ()))
       = Raise (SystemExit 1))"
proof -
  have a: "ls posix linux_host (path linux_host [''new'']) (session_of linux_host jobs_box)
      = (Return [''feedstock''],
         snd (ls posix linux_host (path linux_host [''new'']) (session_of linux_host jobs_box)))
    \<and> ''build.ready'' \<notin> set [''feedstock''] \<and> ''build.failed'' \<notin> set [''feedstock'']
    \<and> ''build.log'' \<notin> set [''feedstock'']"
    by code_simp
  have b: "type linux_host = LINUX_TYPE
    \<and> fst (remote posix (connection (session_of linux_host jobs_box))
         (''ls -1A '' @ path linux_host [''foo'']) (world (session_of linux_host jobs_box))) = None"
    by code_simp
  have c: "type windows_host = WINDOWS_TYPE
    \<and> fst (remote unreachable (connection (session_of windows_host ()))
         (''dir /b '' @ dq @ path windows_host [''foo''] @ dq) (world (session_of windows_host ())))
       = None"
    by code_simp
  from a b c
    status_not_started_or_exit[of posix linux_host "''new''" "session_of linux_host jobs_box"
      "[''feedstock'']"
      "snd (ls posix linux_host (path linux_host [''new'']) (session_of linux_host jobs_box))"]
    status_not_started_or_exit[of posix linux_host "''foo''" "session_of linux_host jobs_box"]
    status_not_started_or_exit[of unreachable windows_host "''foo''" "session_of windows_host ()"]
  show ?thesis by blast
qed

text \<open>
  C4, as it is stated, fails: on the simulated machine with nothing of sisyphus on it the
  constructor returns the Linux host, the job directory of the package \<open>foo\<close> was never
  made, and \<open>status\<close> exits with code 1 instead of returning \<open>Not started\<close>.
\<close>

theorem status_no_prior_state_counterexample:
  "fst (Host_init posix ''10.0.0.7'' bare_box) = Return linux_host
   \<and> world (snd (Host_init posix ''10.0.0.7'' bare_box)) = [(''/tmp'', True), (''/tmp/sisyphus'', True)]
   \<and> fst (status posix linux_host ''foo'' (snd (Host_init posix ''10.0.0.7'' bare_box)))
       = Raise (SystemExit 1)
   \<and> fst (status posix linux_host ''foo'' (snd (Host_init posix ''10.0.0.7'' bare_box)))
       \<noteq> Return ''Not started''"
  by code_simp

subsection \<open>Construction\<close>

lemma Host_init_posix:
  assumes "fst (posix_probe env w)"
  shows "Host_init env a w =
     andthen (run env ''conda init'' False (snd (posix_probe env w))) (\<lambda>_ s2.
       andthen (mkdir env (linux_host\<lparr>host := a\<rparr>) ''/tmp/sisyphus'' s2) (\<lambda>_ s3.
         (Return (linux_host\<lparr>host := a\<rparr>), s3)))"
  using assms
  by (simp add: Host_init_def posix_probe_def Let_def init_session_dir_def[abs_def] path_join_def
      linux_host_def LINUX_TOPDIR_def)

lemma Host_init_windows:
  assumes "\<not> fst (posix_probe env w)" and "fst (windows_probe env w)"
  shows "Host_init env a w =
     andthen (run env (''C:'' @ bs @ ''miniconda3'' @ bs @ ''Scripts'' @ bs @ ''conda.exe init'')
                False (snd (windows_probe env w))) (\<lambda>_ s2.
       andthen (mkdir env (windows_host\<lparr>host := a\<rparr>) (bs @ ''tmp'' @ bs @ ''sisyphus'') s2)
         (\<lambda>_ s3. (Return (windows_host\<lparr>host := a\<rparr>), s3)))"
  using assms
  by (simp add: Host_init_def posix_probe_def windows_probe_def Let_def init_session_dir_def[abs_def]
      path_join_def windows_host_def WINDOWS_TOPDIR_def bs_def)

lemma Host_init_neither:
  assumes "\<not> fst (posix_probe env w)" and "\<not> fst (windows_probe env w)"
  shows "fst (Host_init env a w) = Raise (SystemExit 1)"
  using assms
  by (simp add: Host_init_def posix_probe_def windows_probe_def Let_def)

lemma set_up_outcomes:
  assumes t: "type h = LINUX_TYPE \<or> type h = WINDOWS_TYPE"
    and i: "I = andthen (run env cmd False s1) (\<lambda>_ s2.
              andthen (mkdir env h p s2) (\<lambda>_ s3. (Return h, s3)))"
  shows "I = (Return h', s) \<Longrightarrow> h' = h \<and> connection s = connection s1"
    and "I = (Raise e, s) \<Longrightarrow> e = SystemExit 1"
    and "run env cmd False s1 = (Return r, s2) \<Longrightarrow> mkdir env h p s2 = (Return (), s3)
         \<Longrightarrow> I = (Return h, s3)"
proof -
  obtain x t1 where r: "run env cmd False s1 = (x, t1)" by (cases "run env cmd False s1")
  have c1: "connection t1 = connection s1" using run_fields(2)[of env cmd False s1] r by simp
  obtain y t2 where m: "mkdir env h p t1 = (y, t2)" by (cases "mkdir env h p t1")
  have c2: "connection t2 = connection t1" using mkdir_connection[of env h p t1] m by simp
  have rx: "x = Raise z \<Longrightarrow> z = SystemExit 1" for z
    using run_Raise[of env cmd s1 z] r by simp
  have ry: "y = Raise z \<Longrightarrow> z = SystemExit 1" for z
    using mkdir_Raise[OF t, of env p t1 z] m by simp
  show "I = (Return h', s) \<Longrightarrow> h' = h \<and> connection s = connection s1"
    using c1 c2 by (cases x; cases y) (auto simp: i r m)
  show "I = (Raise e, s) \<Longrightarrow> e = SystemExit 1"
    using rx ry by (cases x; cases y) (auto simp: i r m)
  show "run env cmd False s1 = (Return r, s2) \<Longrightarrow> mkdir env h p s2 = (Return (), s3)
         \<Longrightarrow> I = (Return h, s3)"
    by (simp add: i)
qed

text \<open>
  C3: when the probe \<open>uname -a\<close> as the Linux user succeeds, the constructor returns no
  host but the Linux one (type, user, separator \<open>/\<close>, top directory \<open>/tmp\<close>), and it returns
  it when the initialisation of conda and the creation of the session directory succeed;
  otherwise it exits with code 1. When that probe fails and the probe \<open>ver\<close> as the Windows
  user succeeds, the same holds with the Windows settings. When both probes fail the
  constructor exits with code 1 and returns no host.
\<close>

theorem detect_host:
  "fst (posix_probe env w) = (fst (remote env LINUX_USER ''uname -a'' w) \<noteq> None)
   \<and> fst (windows_probe env w)
       = (fst (remote env WINDOWS_USER ''ver'' (snd (remote env LINUX_USER ''uname -a'' w))) \<noteq> None)
   \<and> (fst (posix_probe env w) \<longrightarrow>
        (\<forall>h s. Host_init env a w = (Return h, s) \<longrightarrow>
           type h = LINUX_TYPE \<and> user h = LINUX_USER \<and> separator h = ''/''
           \<and> topdir h = LINUX_TOPDIR \<and> h = linux_host\<lparr>host := a\<rparr> \<and> connection s = LINUX_USER)
      \<and> (\<forall>e s. Host_init env a w = (Raise e, s) \<longrightarrow> e = SystemExit 1)
      \<and> (\<forall>r s2 s3. run env ''conda init'' False (snd (posix_probe env w)) = (Return r, s2)
            \<and> mkdir env (linux_host\<lparr>host := a\<rparr>) ''/tmp/sisyphus'' s2 = (Return (), s3)
            \<longrightarrow> Host_init env a w = (Return (linux_host\<lparr>host := a\<rparr>), s3)))
   \<and> (\<not> fst (posix_probe env w) \<and> fst (windows_probe env w) \<longrightarrow>
        (\<forall>h s. Host_init env a w = (Return h, s) \<longrightarrow>
           type h = WINDOWS_TYPE \<and> user h = WINDOWS_USER \<and> separator h = bs
           \<and> topdir h = WINDOWS_TOPDIR \<and> h = windows_host\<lparr>host := a\<rparr>
           \<and> connection s = WINDOWS_USER)
      \<and> (\<forall>e s. Host_init env a w = (Raise e, s) \<longrightarrow> e = SystemExit 1)
      \<and> (\<forall>r s2 s3. run env (''C:'' @ bs @ ''miniconda3'' @ bs @ ''Scripts'' @ bs @ ''conda.exe init'')
                      False (snd (windows_probe env w)) = (Return r, s2)
            \<and> mkdir env (windows_host\<lparr>host := a\<rparr>) (bs @ ''tmp'' @ bs @ ''sisyphus'') s2
                = (Return (), s3)
            \<longrightarrow> Host_init env a w = (Return (windows_host\<lparr>host := a\<rparr>), s3)))
   \<and> (\<not> fst (posix_probe env w) \<and> \<not> fst (windows_probe env w) \<longrightarrow>
        fst (Host_init env a w) = Raise (SystemExit 1))"
proof -
  have p0: "fst (posix_probe env w) = (fst (remote env LINUX_USER ''uname -a'' w) \<noteq> None)"
    by (simp add: posix_probe_def test_connection_fields fresh_def)
  have w0: "fst (windows_probe env w)
       = (fst (remote env WINDOWS_USER ''ver'' (snd (remote env LINUX_USER ''uname -a'' w))) \<noteq> None)"
    by (simp add: windows_probe_def posix_probe_def test_connection_fields fresh_def)
  have cp: "connection (snd (posix_probe env w)) = LINUX_USER"
    by (simp add: posix_probe_def test_connection_fields)
  have cw: "connection (snd (windows_probe env w)) = WINDOWS_USER"
    by (simp add: windows_probe_def test_connection_fields)
  have tl: "type (linux_host\<lparr>host := a\<rparr>) = LINUX_TYPE \<or> type (linux_host\<lparr>host := a\<rparr>) = WINDOWS_TYPE"
    by (simp add: linux_host_def)
  have tw: "type (windows_host\<lparr>host := a\<rparr>) = LINUX_TYPE
      \<or> type (windows_host\<lparr>host := a\<rparr>) = WINDOWS_TYPE"
    by (simp add: windows_host_def)
  have fl: "type (linux_host\<lparr>host := a\<rparr>) = LINUX_TYPE \<and> user (linux_host\<lparr>host := a\<rparr>) = LINUX_USER
      \<and> separator (linux_host\<lparr>host := a\<rparr>) = ''/'' \<and> topdir (linux_host\<lparr>host := a\<rparr>) = LINUX_TOPDIR"
    by (simp add: linux_host_def)
  have fw: "type (windows_host\<lparr>host := a\<rparr>) = WINDOWS_TYPE
      \<and> user (windows_host\<lparr>host := a\<rparr>) = WINDOWS_USER
      \<and> separator (windows_host\<lparr>host := a\<rparr>) = bs
      \<and> topdir (windows_host\<lparr>host := a\<rparr>) = WINDOWS_TOPDIR"
    by (simp add: windows_host_def)
  have P: "(\<forall>h s. Host_init env a w = (Return h, s) \<longrightarrow>
           type h = LINUX_TYPE \<and> user h = LINUX_USER \<and> separator h = ''/''
           \<and> topdir h = LINUX_TOPDIR \<and> h = linux_host\<lparr>host := a\<rparr> \<and> connection s = LINUX_USER)
      \<and> (\<forall>e s. Host_init env a w = (Raise e, s) \<longrightarrow> e = SystemExit 1)
      \<and> (\<forall>r s2 s3. run env ''conda init'' False (snd (posix_probe env w)) = (Return r, s2)
            \<and> mkdir env (linux_host\<lparr>host := a\<rparr>) ''/tmp/sisyphus'' s2 = (Return (), s3)
            \<longrightarrow> Host_init env a w = (Return (linux_host\<lparr>host := a\<rparr>), s3))"
    if "fst (posix_probe env w)"
    using set_up_outcomes[OF tl Host_init_posix[OF that, of a]] fl cp by metis
  have W: "(\<forall>h s. Host_init env a w = (Return h, s) \<longrightarrow>
           type h = WINDOWS_TYPE \<and> user h = WINDOWS_USER \<and> separator h = bs
           \<and> topdir h = WINDOWS_TOPDIR \<and> h = windows_host\<lparr>host := a\<rparr>
           \<and> connection s = WINDOWS_USER)
      \<and> (\<forall>e s. Host_init env a w = (Raise e, s) \<longrightarrow> e = SystemExit 1)
      \<and> (\<forall>r s2 s3. run env (''C:'' @ bs @ ''miniconda3'' @ bs @ ''Scripts'' @ bs @ ''conda.exe init'')
                      False (snd (windows_probe env w)) = (Return r, s2)
            \<and> mkdir env (windows_host\<lparr>host := a\<rparr>) (bs @ ''tmp'' @ bs @ ''sisyphus'') s2
                = (Return (), s3)
            \<longrightarrow> Host_init env a w = (Return (windows_host\<lparr>host := a\<rparr>), s3))"
    if "\<not> fst (posix_probe env w)" "fst (windows_probe env w)"
    using set_up_outcomes[OF tw Host_init_windows[OF that, of a]] fw cw by metis
  show ?thesis
    using p0 w0 P W Host_init_neither[of env w a] by blast
qed


theorem detect_host_witness:
  "(fst (posix_probe posix bare_box)
     \<and> Host_init posix ''10.0.0.7'' bare_box
         = (Return linux_host, snd (Host_init posix ''10.0.0.7'' bare_box))
     \<and> type linux_host = LINUX_TYPE \<and> user linux_host = LINUX_USER
     \<and> separator linux_host = ''/'' \<and> topdir linux_host = LINUX_TOPDIR
     \<and> connection (snd (Host_init posix ''10.0.0.7'' bare_box)) = LINUX_USER)
   \<and> (\<not> fst (posix_probe windows bare_windows_box) \<and> fst (windows_probe windows bare_windows_box)
     \<and> Host_init windows ''10.0.0.8'' bare_windows_box
         = (Return windows_host, snd (Host_init windows ''10.0.0.8'' bare_windows_box))
     \<and> type windows_host = WINDOWS_TYPE \<and> user windows_host = WINDOWS_USER
     \<and> separator windows_host = bs \<and> topdir windows_host = WINDOWS_TOPDIR
     \<and> connection (snd (Host_init windows ''10.0.0.8'' bare_windows_box)) = WINDOWS_USER)
   \<and> (\<not> fst (posix_probe unreachable ()) \<and> \<not> fst (windows_probe unreachable ())
     \<and> fst (Host_init unreachable ''10.0.0.9'' ()) = Raise (SystemExit 1))"
proof -
  have p1: "fst (posix_probe posix bare_box)"
    by code_simp
  have e1: "Host_init posix ''10.0.0.7'' bare_box
         = (Return linux_host, snd (Host_init posix ''10.0.0.7'' bare_box))"
    by code_simp
  have p2: "\<not> fst (posix_probe windows bare_windows_box) \<and> fst (windows_probe windows bare_windows_box)"
    by code_simp
  have e2: "Host_init windows ''10.0.0.8'' bare_windows_box
         = (Return windows_host, snd (Host_init windows ''10.0.0.8'' bare_windows_box))"
    by code_simp
  have p3: "\<not> fst (posix_probe unreachable ()) \<and> \<not> fst (windows_probe unreachable ())"
    by code_simp
  have c1: "type linux_host = LINUX_TYPE \<and> user linux_host = LINUX_USER
     \<and> separator linux_host = ''/'' \<and> topdir linux_host = LINUX_TOPDIR
     \<and> connection (snd (Host_init posix ''10.0.0.7'' bare_box)) = LINUX_USER"
    using detect_host[of posix bare_box "''10.0.0.7''"] p1 e1 by blast
  have c2: "type windows_host = WINDOWS_TYPE \<and> user windows_host = WINDOWS_USER
     \<and> separator windows_host = bs \<and> topdir windows_host = WINDOWS_TOPDIR
     \<and> connection (snd (Host_init windows ''10.0.0.8'' bare_windows_box)) = WINDOWS_USER"
    using detect_host[of windows bare_windows_box "''10.0.0.8''"] p2 e2 by blast
  have c3: "fst (Host_init unreachable ''10.0.0.9'' ()) = Raise (SystemExit 1)"
    using detect_host[of unreachable "()" "''10.0.0.9''"] p3 by blast
  from p1 e1 c1 p2 e2 c2 p3 c3 show ?thesis by blast
qed

subsection \<open>Creating a directory\<close>

lemma probe_sem:
  "fst (andthen (run env cmd False s) (is_yes a b))
     = (if fst (remote env (connection s) cmd (world s)) = None then Raise (SystemExit 1)
        else Return (answers_yes env (connection s) cmd (world s)))"
  by (auto simp: andthen_cases run_outcome answers_yes_def split: option.splits)

lemma exists_sem:
  assumes "type h = LINUX_TYPE \<or> type h = WINDOWS_TYPE"
  shows "fst (exists env h p s)
     = (if fst (remote env (connection s) (exists_cmd h p) (world s)) = None
        then Raise (SystemExit 1)
        else Return (answers_yes env (connection s) (exists_cmd h p) (world s)))"
    and "world (snd (exists env h p s)) = snd (remote env (connection s) (exists_cmd h p) (world s))"
    and "trace (snd (exists env h p s)) = trace s @ [Run (connection s) (exists_cmd h p)
           (fst (remote env (connection s) (exists_cmd h p) (world s)))]"
  using assms types_differ
  by (auto simp: exists_def exists_cmd_def Let_def probe_sem probe_fields)

lemma isdir_sem:
  assumes "type h = LINUX_TYPE \<or> type h = WINDOWS_TYPE"
  shows "fst (isdir env h p s)
     = (if fst (remote env (connection s) (isdir_cmd h p) (world s)) = None
        then Raise (SystemExit 1)
        else Return (answers_yes env (connection s) (isdir_cmd h p) (world s)))"
    and "world (snd (isdir env h p s)) = snd (remote env (connection s) (isdir_cmd h p) (world s))"
    and "trace (snd (isdir env h p s)) = trace s @ [Run (connection s) (isdir_cmd h p)
           (fst (remote env (connection s) (isdir_cmd h p) (world s)))]"
  using assms types_differ
  by (auto simp: isdir_def isdir_cmd_def Let_def probe_sem probe_fields)

lemma create_sem:
  "fst (andthen (run env cmd False s) (\<lambda>_ s2. (Return (), s2)))
     = (if fst (remote env (connection s) cmd (world s)) = None then Raise (SystemExit 1)
        else Return ())"
  "world (snd (andthen (run env cmd False s) (\<lambda>_ s2. (Return (), s2))))
     = snd (remote env (connection s) cmd (world s))"
  "trace (snd (andthen (run env cmd False s) (\<lambda>_ s2. (Return (), s2))))
     = trace s @ [Run (connection s) cmd (fst (remote env (connection s) cmd (world s)))]"
  using run_fields[of env cmd False s]
  by (auto simp: andthen_cases run_outcome split: option.splits outcome.splits)

lemma mkdir_absent:
  assumes "type h = LINUX_TYPE \<or> type h = WINDOWS_TYPE"
    and "exists env h p s = (Return False, s1)"
  shows "mkdir env h p s = andthen (run env (mkdir_cmd h p) False s1) (\<lambda>_ s2. (Return (), s2))"
  using assms types_differ by (auto simp: mkdir_def mkdir_cmd_def)


lemma answers_yes_Some: "answers_yes env u cmd w \<Longrightarrow> fst (remote env u cmd w) \<noteq> None"
  by (auto simp: answers_yes_def split: option.splits)

lemma mkdir_present:
  assumes t: "type h = LINUX_TYPE \<or> type h = WINDOWS_TYPE"
    and ro: "probes_read_only env h p"
    and e: "answers_yes env (connection s) (exists_cmd h p) (world s)"
    and d: "answers_yes env (connection s) (isdir_cmd h p) (world s)"
  shows "\<exists>s2 r1 r2. mkdir env h p s = (Return (), s2) \<and> world s2 = world s
     \<and> trace s2 = trace s @ [Run (connection s) (exists_cmd h p) r1,
                             Run (connection s) (isdir_cmd h p) r2]"
proof -
  obtain a s1 where x: "exists env h p s = (a, s1)" by (cases "exists env h p s")
  have a: "a = Return True"
    using exists_sem(1)[OF t, of env p s] x e answers_yes_Some[OF e] by simp
  have w1: "world s1 = world s"
    using exists_sem(2)[OF t, of env p s] x ro by (simp add: probes_read_only_def)
  have c1: "connection s1 = connection s"
    using exists_connection[of env h p s] x by simp
  have t1: "trace s1 = trace s @ [Run (connection s) (exists_cmd h p)
           (fst (remote env (connection s) (exists_cmd h p) (world s)))]"
    using exists_sem(3)[OF t, of env p s] x by simp
  obtain b s2 where y: "isdir env h p s1 = (b, s2)" by (cases "isdir env h p s1")
  have b: "b = Return True"
    using isdir_sem(1)[OF t, of env p s1] y d answers_yes_Some[OF d] w1 c1 by simp
  have w2: "world s2 = world s"
    using isdir_sem(2)[OF t, of env p s1] y ro w1 by (simp add: probes_read_only_def)
  have t2: "trace s2 = trace s1 @ [Run (connection s) (isdir_cmd h p)
           (fst (remote env (connection s) (isdir_cmd h p) (world s)))]"
    using isdir_sem(3)[OF t, of env p s1] y w1 c1 by simp
  show ?thesis
    using a b w2 t1 t2 by (simp add: mkdir_def x y)
qed

text \<open>
  C5: on a Linux or a Windows host, \<open>mkdir\<close> of a path that exists and is a directory does
  nothing but the two probes; of a path that exists and is not a directory it exits with
  code 1; of a path that does not exist it sends the command that creates the directory,
  with its parents, and exits with code 1 when that command fails. On a machine whose
  probes change nothing and where a directory that was created is seen by the probes, a
  second \<open>mkdir\<close> after a first one that returned leaves the machine as the first one left
  it and sends the two probes only.
\<close>

theorem mkdir_idempotent_fatal:
  assumes t: "type h = LINUX_TYPE \<or> type h = WINDOWS_TYPE"
  shows "(exists env h p s = (Return True, s1) \<and> isdir env h p s1 = (Return True, s2)
            \<longrightarrow> fst (mkdir env h p s) = Return () \<and> trace (snd (mkdir env h p s)) = trace s2
              \<and> world (snd (mkdir env h p s)) = world s2)
       \<and> (exists env h p s = (Return True, s1) \<and> isdir env h p s1 = (Return False, s2)
            \<longrightarrow> fst (mkdir env h p s) = Raise (SystemExit 1)
              \<and> trace (snd (mkdir env h p s)) = trace s2)
       \<and> (exists env h p s = (Return False, s1)
            \<longrightarrow> fst (mkdir env h p s)
                 = (if fst (remote env (connection s1) (mkdir_cmd h p) (world s1)) = None
                    then Raise (SystemExit 1) else Return ())
              \<and> trace (snd (mkdir env h p s))
                 = trace s1 @ [Run (connection s1) (mkdir_cmd h p)
                     (fst (remote env (connection s1) (mkdir_cmd h p) (world s1)))]
              \<and> world (snd (mkdir env h p s))
                 = snd (remote env (connection s1) (mkdir_cmd h p) (world s1)))
       \<and> (probes_read_only env h p \<and> creation_takes_effect env h p
          \<and> mkdir env h p s = (Return (), t1)
            \<longrightarrow> (\<exists>t2 r1 r2. mkdir env h p t1 = (Return (), t2) \<and> world t2 = world t1
                  \<and> trace t2 = trace t1 @ [Run (connection t1) (exists_cmd h p) r1,
                                            Run (connection t1) (isdir_cmd h p) r2]))"
proof -
  have A: "fst (mkdir env h p s) = Return () \<and> trace (snd (mkdir env h p s)) = trace s2
              \<and> world (snd (mkdir env h p s)) = world s2"
    if "exists env h p s = (Return True, s1)" "isdir env h p s1 = (Return True, s2)"
    using that by (simp add: mkdir_def)
  have B: "fst (mkdir env h p s) = Raise (SystemExit 1)
              \<and> trace (snd (mkdir env h p s)) = trace s2"
    if "exists env h p s = (Return True, s1)" "isdir env h p s1 = (Return False, s2)"
    using that by (simp add: mkdir_def)
  have C: "fst (mkdir env h p s)
                 = (if fst (remote env (connection s1) (mkdir_cmd h p) (world s1)) = None
                    then Raise (SystemExit 1) else Return ())
              \<and> trace (snd (mkdir env h p s))
                 = trace s1 @ [Run (connection s1) (mkdir_cmd h p)
                     (fst (remote env (connection s1) (mkdir_cmd h p) (world s1)))]
              \<and> world (snd (mkdir env h p s))
                 = snd (remote env (connection s1) (mkdir_cmd h p) (world s1))"
    if "exists env h p s = (Return False, s1)"
    unfolding mkdir_absent[OF t that] by (simp only: create_sem)
  have D: "\<exists>t2 r1 r2. mkdir env h p t1 = (Return (), t2) \<and> world t2 = world t1
                  \<and> trace t2 = trace t1 @ [Run (connection t1) (exists_cmd h p) r1,
                                            Run (connection t1) (isdir_cmd h p) r2]"
    if ro: "probes_read_only env h p" and ce: "creation_takes_effect env h p"
      and m: "mkdir env h p s = (Return (), t1)"
  proof -
    obtain a u1 where x: "exists env h p s = (a, u1)" by (cases "exists env h p s")
    have cu1: "connection u1 = connection s"
      using exists_connection[of env h p s] x by simp
    have wu1: "world u1 = world s"
      using exists_sem(2)[OF t, of env p s] x ro by (simp add: probes_read_only_def)
    have "answers_yes env (connection t1) (exists_cmd h p) (world t1)
        \<and> answers_yes env (connection t1) (isdir_cmd h p) (world t1)"
    proof (cases a)
      case (Raise e)
      then show ?thesis using m x by (simp add: mkdir_def)
    next
      case (Return found)
      show ?thesis
      proof (cases found)
        case True
        obtain b u2 where y: "isdir env h p u1 = (b, u2)" by (cases "isdir env h p u1")
        have cu2: "connection u2 = connection s"
          using isdir_connection[of env h p u1] y cu1 by simp
        have wu2: "world u2 = world s"
          using isdir_sem(2)[OF t, of env p u1] y ro wu1 by (simp add: probes_read_only_def)
        have b: "b = Return True"
          using m x y Return True by (cases b) (auto simp: mkdir_def split: if_splits)
        have t1eq: "connection t1 = connection s \<and> world t1 = world s"
          using m x y Return True b cu2 wu2 by (auto simp: mkdir_def)
        have ey: "answers_yes env (connection s) (exists_cmd h p) (world s)"
          using exists_sem(1)[OF t, of env p s] x Return True by (simp split: if_splits)
        have dy: "answers_yes env (connection s) (isdir_cmd h p) (world s)"
          using isdir_sem(1)[OF t, of env p u1] y b cu1 wu1 by (simp split: if_splits)
        show ?thesis using t1eq ey dy by simp
      next
        case False
        have mk: "mkdir env h p s
            = andthen (run env (mkdir_cmd h p) False u1) (\<lambda>_ s2. (Return (), s2))"
          using mkdir_absent[OF t] x Return False by simp
        have r: "andthen (run env (mkdir_cmd h p) False u1) (\<lambda>_ s2. (Return (), s2))
            = (Return (), t1)"
          using mk m by simp
        have ok: "fst (remote env (connection s) (mkdir_cmd h p) (world s)) \<noteq> None"
          using create_sem(1)[of env "mkdir_cmd h p" u1] r cu1 wu1
          by (auto split: if_splits)
        have wt1: "world t1 = snd (remote env (connection s) (mkdir_cmd h p) (world s))"
          using create_sem(2)[of env "mkdir_cmd h p" u1] r cu1 wu1 by simp
        have ct1: "connection t1 = connection s"
          using run_unit_fields(1)[of env "mkdir_cmd h p" u1] r cu1 by simp
        show ?thesis
          using ce ok wt1 ct1 by (simp add: creation_takes_effect_def)
      qed
    qed
    then show ?thesis using mkdir_present[OF t ro, of t1] by blast
  qed
  show ?thesis using A B C D by blast
qed


text \<open>The simulated Linux machine meets the two expectations for a path.\<close>

lemma foo_decode:
  "exists_cmd linux_host ''/tmp/sisyphus/foo'' \<noteq> ''uname -a''"
  "exists_cmd linux_host ''/tmp/sisyphus/foo'' \<noteq> ''conda init''"
  "strip_affix (''if [[ -e '' @ sq) (sq @ '' ]]; then echo Yes; fi'')
     (exists_cmd linux_host ''/tmp/sisyphus/foo'') = Some ''/tmp/sisyphus/foo''"
  "isdir_cmd linux_host ''/tmp/sisyphus/foo'' \<noteq> ''uname -a''"
  "isdir_cmd linux_host ''/tmp/sisyphus/foo'' \<noteq> ''conda init''"
  "strip_affix (''if [[ -e '' @ sq) (sq @ '' ]]; then echo Yes; fi'')
     (isdir_cmd linux_host ''/tmp/sisyphus/foo'') = None"
  "strip_affix (''if [[ -d '' @ sq) (sq @ '' ]]; then echo Yes; fi'')
     (isdir_cmd linux_host ''/tmp/sisyphus/foo'') = Some ''/tmp/sisyphus/foo''"
  "mkdir_cmd linux_host ''/tmp/sisyphus/foo'' \<noteq> ''uname -a''"
  "mkdir_cmd linux_host ''/tmp/sisyphus/foo'' \<noteq> ''conda init''"
  "strip_affix (''if [[ -e '' @ sq) (sq @ '' ]]; then echo Yes; fi'')
     (mkdir_cmd linux_host ''/tmp/sisyphus/foo'') = None"
  "strip_affix (''if [[ -d '' @ sq) (sq @ '' ]]; then echo Yes; fi'')
     (mkdir_cmd linux_host ''/tmp/sisyphus/foo'') = None"
  "strip_affix ''mkdir -p '' [] (mkdir_cmd linux_host ''/tmp/sisyphus/foo'')
     = Some ''/tmp/sisyphus/foo''"
  "rstrip (lstrip [CHR ''Y'', CHR ''e'', CHR ''s'', CHR 0x0A]) = ''Yes''"
  "rstrip (lstrip []) \<noteq> ''Yes''"
  by code_simp+

lemma posix_foo:
  "posix_remote u (exists_cmd linux_host ''/tmp/sisyphus/foo'') w
     = (if u \<noteq> LINUX_USER then (None, w)
        else (Some (if ''/tmp/sisyphus/foo'' \<in> set (map fst w) then ''Yes'' @ [CHR 0x0A] else []), w))"
  "posix_remote u (isdir_cmd linux_host ''/tmp/sisyphus/foo'') w
     = (if u \<noteq> LINUX_USER then (None, w)
        else (Some (if (''/tmp/sisyphus/foo'', True) \<in> set w then ''Yes'' @ [CHR 0x0A] else []), w))"
  "posix_remote u (mkdir_cmd linux_host ''/tmp/sisyphus/foo'') w
     = (if u \<noteq> LINUX_USER then (None, w)
        else if (''/tmp/sisyphus/foo'', False) \<in> set w then (None, w)
        else (Some [], if (''/tmp/sisyphus/foo'', True) \<in> set w then w
                       else w @ [(''/tmp/sisyphus/foo'', True)]))"
  by (simp_all only: posix_remote_def foo_decode if_False option.case)

lemma posix_probes_read_only: "probes_read_only posix linux_host ''/tmp/sisyphus/foo''"
  by (simp add: probes_read_only_def posix_def posix_foo)

lemma posix_creation_takes_effect: "creation_takes_effect posix linux_host ''/tmp/sisyphus/foo''"
proof -
  have "answers_yes posix u (exists_cmd linux_host ''/tmp/sisyphus/foo'')
          (snd (remote posix u (mkdir_cmd linux_host ''/tmp/sisyphus/foo'') w))
      \<and> answers_yes posix u (isdir_cmd linux_host ''/tmp/sisyphus/foo'')
          (snd (remote posix u (mkdir_cmd linux_host ''/tmp/sisyphus/foo'') w))"
    if "fst (remote posix u (mkdir_cmd linux_host ''/tmp/sisyphus/foo'') w) \<noteq> None" for u w
  proof -
    from that have u: "u = LINUX_USER" and f: "(''/tmp/sisyphus/foo'', False) \<notin> set w"
      by (auto simp: posix_def posix_foo(3) split: if_splits)
    show ?thesis
    proof (cases "(''/tmp/sisyphus/foo'', True) \<in> set w")
      case True
      then have "''/tmp/sisyphus/foo'' \<in> set (map fst w)" by force
      then show ?thesis
        using True u f
        by (simp add: answers_yes_def posix_def posix_foo foo_decode(13))
    next
      case False
      then show ?thesis
        using u f
        by (simp add: answers_yes_def posix_def posix_foo foo_decode(13))
    qed
  qed
  then show ?thesis unfolding creation_takes_effect_def by blast
qed


theorem mkdir_idempotent_fatal_witness:
  "(type linux_host = LINUX_TYPE \<or> type linux_host = WINDOWS_TYPE) \<and> (type windows_host = LINUX_TYPE \<or> type windows_host = WINDOWS_TYPE)
   \<and> (exists posix linux_host ''/tmp/sisyphus'' jobs_session = (Return True, snd (exists posix linux_host ''/tmp/sisyphus'' jobs_session))
      \<and> isdir posix linux_host ''/tmp/sisyphus'' (snd (exists posix linux_host ''/tmp/sisyphus'' jobs_session)) = (Return True, snd (isdir posix linux_host ''/tmp/sisyphus'' (snd (exists posix linux_host ''/tmp/sisyphus'' jobs_session))))
      \<and> fst (mkdir posix linux_host ''/tmp/sisyphus'' jobs_session) = Return ()
      \<and> trace (snd (mkdir posix linux_host ''/tmp/sisyphus'' jobs_session)) = trace (snd (isdir posix linux_host ''/tmp/sisyphus'' (snd (exists posix linux_host ''/tmp/sisyphus'' jobs_session))))
      \<and> world (snd (mkdir posix linux_host ''/tmp/sisyphus'' jobs_session)) = world (snd (isdir posix linux_host ''/tmp/sisyphus'' (snd (exists posix linux_host ''/tmp/sisyphus'' jobs_session)))))
   \<and> (exists posix linux_host ''/tmp/sisyphus/done/build.log'' jobs_session = (Return True, snd (exists posix linux_host ''/tmp/sisyphus/done/build.log'' jobs_session))
      \<and> isdir posix linux_host ''/tmp/sisyphus/done/build.log'' (snd (exists posix linux_host ''/tmp/sisyphus/done/build.log'' jobs_session)) = (Return False, snd (isdir posix linux_host ''/tmp/sisyphus/done/build.log'' (snd (exists posix linux_host ''/tmp/sisyphus/done/build.log'' jobs_session))))
      \<and> fst (mkdir posix linux_host ''/tmp/sisyphus/done/build.log'' jobs_session) = Raise (SystemExit 1)
      \<and> trace (snd (mkdir posix linux_host ''/tmp/sisyphus/done/build.log'' jobs_session)) = trace (snd (isdir posix linux_host ''/tmp/sisyphus/done/build.log'' (snd (exists posix linux_host ''/tmp/sisyphus/done/build.log'' jobs_session)))))
   \<and> (exists windows windows_host (bs @ ''tmp'' @ bs @ ''sisyphus'') collision_session = (Return True, snd (exists windows windows_host (bs @ ''tmp'' @ bs @ ''sisyphus'') collision_session))
      \<and> isdir windows windows_host (bs @ ''tmp'' @ bs @ ''sisyphus'') (snd (exists windows windows_host (bs @ ''tmp'' @ bs @ ''sisyphus'') collision_session)) = (Return False, snd (isdir windows windows_host (bs @ ''tmp'' @ bs @ ''sisyphus'') (snd (exists windows windows_host (bs @ ''tmp'' @ bs @ ''sisyphus'') collision_session))))
      \<and> fst (mkdir windows windows_host (bs @ ''tmp'' @ bs @ ''sisyphus'') collision_session) = Raise (SystemExit 1)
      \<and> trace (snd (mkdir windows windows_host (bs @ ''tmp'' @ bs @ ''sisyphus'') collision_session)) = trace (snd (isdir windows windows_host (bs @ ''tmp'' @ bs @ ''sisyphus'') (snd (exists windows windows_host (bs @ ''tmp'' @ bs @ ''sisyphus'') collision_session)))))
   \<and> (exists posix linux_host ''/tmp/sisyphus/foo'' jobs_session = (Return False, snd (exists posix linux_host ''/tmp/sisyphus/foo'' jobs_session))
      \<and> fst (mkdir posix linux_host ''/tmp/sisyphus/foo'' jobs_session)
          = (if fst (remote posix (connection (snd (exists posix linux_host ''/tmp/sisyphus/foo'' jobs_session))) (mkdir_cmd linux_host ''/tmp/sisyphus/foo'') (world (snd (exists posix linux_host ''/tmp/sisyphus/foo'' jobs_session)))) = None
             then Raise (SystemExit 1) else Return ())
      \<and> trace (snd (mkdir posix linux_host ''/tmp/sisyphus/foo'' jobs_session))
          = trace (snd (exists posix linux_host ''/tmp/sisyphus/foo'' jobs_session)) @ [Run (connection (snd (exists posix linux_host ''/tmp/sisyphus/foo'' jobs_session))) (mkdir_cmd linux_host ''/tmp/sisyphus/foo'')
              (fst (remote posix (connection (snd (exists posix linux_host ''/tmp/sisyphus/foo'' jobs_session))) (mkdir_cmd linux_host ''/tmp/sisyphus/foo'') (world (snd (exists posix linux_host ''/tmp/sisyphus/foo'' jobs_session)))))]
      \<and> world (snd (mkdir posix linux_host ''/tmp/sisyphus/foo'' jobs_session))
          = snd (remote posix (connection (snd (exists posix linux_host ''/tmp/sisyphus/foo'' jobs_session))) (mkdir_cmd linux_host ''/tmp/sisyphus/foo'') (world (snd (exists posix linux_host ''/tmp/sisyphus/foo'' jobs_session))))
      \<and> fst (mkdir posix linux_host ''/tmp/sisyphus/foo'' jobs_session) = Return ()
      \<and> world (snd (mkdir posix linux_host ''/tmp/sisyphus/foo'' jobs_session)) = jobs_box @ [(''/tmp/sisyphus/foo'', True)])
   \<and> (probes_read_only posix linux_host ''/tmp/sisyphus/foo'' \<and> creation_takes_effect posix linux_host ''/tmp/sisyphus/foo''
      \<and> mkdir posix linux_host ''/tmp/sisyphus/foo'' jobs_session = (Return (), snd (mkdir posix linux_host ''/tmp/sisyphus/foo'' jobs_session))
      \<and> (\<exists>t2 r1 r2. mkdir posix linux_host ''/tmp/sisyphus/foo'' (snd (mkdir posix linux_host ''/tmp/sisyphus/foo'' jobs_session)) = (Return (), t2)
          \<and> world t2 = world (snd (mkdir posix linux_host ''/tmp/sisyphus/foo'' jobs_session))
          \<and> trace t2 = trace (snd (mkdir posix linux_host ''/tmp/sisyphus/foo'' jobs_session))
               @ [Run (connection (snd (mkdir posix linux_host ''/tmp/sisyphus/foo'' jobs_session))) (exists_cmd linux_host ''/tmp/sisyphus/foo'') r1,
                  Run (connection (snd (mkdir posix linux_host ''/tmp/sisyphus/foo'' jobs_session))) (isdir_cmd linux_host ''/tmp/sisyphus/foo'') r2]))"
proof -
  have tl: "(type linux_host = LINUX_TYPE \<or> type linux_host = WINDOWS_TYPE)"
    by (simp add: linux_host_def)
  have tw: "(type windows_host = LINUX_TYPE \<or> type windows_host = WINDOWS_TYPE)"
    by (simp add: windows_host_def)
  have h1: "exists posix linux_host ''/tmp/sisyphus'' jobs_session = (Return True, snd (exists posix linux_host ''/tmp/sisyphus'' jobs_session))
      \<and> isdir posix linux_host ''/tmp/sisyphus'' (snd (exists posix linux_host ''/tmp/sisyphus'' jobs_session)) = (Return True, snd (isdir posix linux_host ''/tmp/sisyphus'' (snd (exists posix linux_host ''/tmp/sisyphus'' jobs_session))))"
    by code_simp
  have h2: "exists posix linux_host ''/tmp/sisyphus/done/build.log'' jobs_session = (Return True, snd (exists posix linux_host ''/tmp/sisyphus/done/build.log'' jobs_session))
      \<and> isdir posix linux_host ''/tmp/sisyphus/done/build.log'' (snd (exists posix linux_host ''/tmp/sisyphus/done/build.log'' jobs_session)) = (Return False, snd (isdir posix linux_host ''/tmp/sisyphus/done/build.log'' (snd (exists posix linux_host ''/tmp/sisyphus/done/build.log'' jobs_session))))"
    by code_simp
  have hw: "exists windows windows_host (bs @ ''tmp'' @ bs @ ''sisyphus'') collision_session = (Return True, snd (exists windows windows_host (bs @ ''tmp'' @ bs @ ''sisyphus'') collision_session))
      \<and> isdir windows windows_host (bs @ ''tmp'' @ bs @ ''sisyphus'') (snd (exists windows windows_host (bs @ ''tmp'' @ bs @ ''sisyphus'') collision_session)) = (Return False, snd (isdir windows windows_host (bs @ ''tmp'' @ bs @ ''sisyphus'') (snd (exists windows windows_host (bs @ ''tmp'' @ bs @ ''sisyphus'') collision_session))))"
    by code_simp
  have h3: "exists posix linux_host ''/tmp/sisyphus/foo'' jobs_session = (Return False, snd (exists posix linux_host ''/tmp/sisyphus/foo'' jobs_session))"
    by code_simp
  have v3: "fst (mkdir posix linux_host ''/tmp/sisyphus/foo'' jobs_session) = Return ()
      \<and> world (snd (mkdir posix linux_host ''/tmp/sisyphus/foo'' jobs_session)) = jobs_box @ [(''/tmp/sisyphus/foo'', True)]"
    by code_simp
  have m3: "mkdir posix linux_host ''/tmp/sisyphus/foo'' jobs_session = (Return (), snd (mkdir posix linux_host ''/tmp/sisyphus/foo'' jobs_session))"
    using v3 by (cases "mkdir posix linux_host ''/tmp/sisyphus/foo'' jobs_session") simp
  have h4: "probes_read_only posix linux_host ''/tmp/sisyphus/foo'' \<and> creation_takes_effect posix linux_host ''/tmp/sisyphus/foo''
      \<and> mkdir posix linux_host ''/tmp/sisyphus/foo'' jobs_session = (Return (), snd (mkdir posix linux_host ''/tmp/sisyphus/foo'' jobs_session))"
    using posix_probes_read_only posix_creation_takes_effect m3 by simp
  have c1: "fst (mkdir posix linux_host ''/tmp/sisyphus'' jobs_session) = Return ()
      \<and> trace (snd (mkdir posix linux_host ''/tmp/sisyphus'' jobs_session)) = trace (snd (isdir posix linux_host ''/tmp/sisyphus'' (snd (exists posix linux_host ''/tmp/sisyphus'' jobs_session))))
      \<and> world (snd (mkdir posix linux_host ''/tmp/sisyphus'' jobs_session)) = world (snd (isdir posix linux_host ''/tmp/sisyphus'' (snd (exists posix linux_host ''/tmp/sisyphus'' jobs_session))))"
    using mkdir_idempotent_fatal[where h=linux_host and env=posix and p="''/tmp/sisyphus''" and s=jobs_session
        and ?s1.0="snd (exists posix linux_host ''/tmp/sisyphus'' jobs_session)"
        and ?s2.0="snd (isdir posix linux_host ''/tmp/sisyphus'' (snd (exists posix linux_host ''/tmp/sisyphus'' jobs_session)))"
        and ?t1.0="undefined"] tl h1
    by blast
  have c2: "fst (mkdir posix linux_host ''/tmp/sisyphus/done/build.log'' jobs_session) = Raise (SystemExit 1)
      \<and> trace (snd (mkdir posix linux_host ''/tmp/sisyphus/done/build.log'' jobs_session)) = trace (snd (isdir posix linux_host ''/tmp/sisyphus/done/build.log'' (snd (exists posix linux_host ''/tmp/sisyphus/done/build.log'' jobs_session))))"
    using mkdir_idempotent_fatal[where h=linux_host and env=posix and p="''/tmp/sisyphus/done/build.log''" and s=jobs_session
        and ?s1.0="snd (exists posix linux_host ''/tmp/sisyphus/done/build.log'' jobs_session)"
        and ?s2.0="snd (isdir posix linux_host ''/tmp/sisyphus/done/build.log'' (snd (exists posix linux_host ''/tmp/sisyphus/done/build.log'' jobs_session)))"
        and ?t1.0="undefined"] tl h2
    by blast
  have cw: "fst (mkdir windows windows_host (bs @ ''tmp'' @ bs @ ''sisyphus'') collision_session) = Raise (SystemExit 1)
      \<and> trace (snd (mkdir windows windows_host (bs @ ''tmp'' @ bs @ ''sisyphus'') collision_session)) = trace (snd (isdir windows windows_host (bs @ ''tmp'' @ bs @ ''sisyphus'') (snd (exists windows windows_host (bs @ ''tmp'' @ bs @ ''sisyphus'') collision_session))))"
    using mkdir_idempotent_fatal[where h=windows_host and env=windows and p="(bs @ ''tmp'' @ bs @ ''sisyphus'')" and s=collision_session
        and ?s1.0="snd (exists windows windows_host (bs @ ''tmp'' @ bs @ ''sisyphus'') collision_session)"
        and ?s2.0="snd (isdir windows windows_host (bs @ ''tmp'' @ bs @ ''sisyphus'') (snd (exists windows windows_host (bs @ ''tmp'' @ bs @ ''sisyphus'') collision_session)))"
        and ?t1.0="undefined"] tw hw
    by blast
  have c3: "fst (mkdir posix linux_host ''/tmp/sisyphus/foo'' jobs_session)
          = (if fst (remote posix (connection (snd (exists posix linux_host ''/tmp/sisyphus/foo'' jobs_session))) (mkdir_cmd linux_host ''/tmp/sisyphus/foo'') (world (snd (exists posix linux_host ''/tmp/sisyphus/foo'' jobs_session)))) = None
             then Raise (SystemExit 1) else Return ())
      \<and> trace (snd (mkdir posix linux_host ''/tmp/sisyphus/foo'' jobs_session))
          = trace (snd (exists posix linux_host ''/tmp/sisyphus/foo'' jobs_session)) @ [Run (connection (snd (exists posix linux_host ''/tmp/sisyphus/foo'' jobs_session))) (mkdir_cmd linux_host ''/tmp/sisyphus/foo'')
              (fst (remote posix (connection (snd (exists posix linux_host ''/tmp/sisyphus/foo'' jobs_session))) (mkdir_cmd linux_host ''/tmp/sisyphus/foo'') (world (snd (exists posix linux_host ''/tmp/sisyphus/foo'' jobs_session)))))]
      \<and> world (snd (mkdir posix linux_host ''/tmp/sisyphus/foo'' jobs_session))
          = snd (remote posix (connection (snd (exists posix linux_host ''/tmp/sisyphus/foo'' jobs_session))) (mkdir_cmd linux_host ''/tmp/sisyphus/foo'') (world (snd (exists posix linux_host ''/tmp/sisyphus/foo'' jobs_session))))"
    using mkdir_idempotent_fatal[where h=linux_host and env=posix and p="''/tmp/sisyphus/foo''" and s=jobs_session
        and ?s1.0="snd (exists posix linux_host ''/tmp/sisyphus/foo'' jobs_session)"
        and ?s2.0="undefined"
        and ?t1.0="undefined"] tl h3
    by blast
  have c4: "(\<exists>t2 r1 r2. mkdir posix linux_host ''/tmp/sisyphus/foo'' (snd (mkdir posix linux_host ''/tmp/sisyphus/foo'' jobs_session)) = (Return (), t2)
          \<and> world t2 = world (snd (mkdir posix linux_host ''/tmp/sisyphus/foo'' jobs_session))
          \<and> trace t2 = trace (snd (mkdir posix linux_host ''/tmp/sisyphus/foo'' jobs_session))
               @ [Run (connection (snd (mkdir posix linux_host ''/tmp/sisyphus/foo'' jobs_session))) (exists_cmd linux_host ''/tmp/sisyphus/foo'') r1,
                  Run (connection (snd (mkdir posix linux_host ''/tmp/sisyphus/foo'' jobs_session))) (isdir_cmd linux_host ''/tmp/sisyphus/foo'') r2])"
    using mkdir_idempotent_fatal[where h=linux_host and env=posix and p="''/tmp/sisyphus/foo''" and s=jobs_session
        and ?s1.0="undefined"
        and ?s2.0="undefined"
        and ?t1.0="snd (mkdir posix linux_host ''/tmp/sisyphus/foo'' jobs_session)"] tl h4
    by blast
  from tl tw h1 c1 h2 c2 hw cw h3 c3 v3 h4 c4 show ?thesis by blast
qed

subsection \<open>Downloading the artifacts\<close>

lemma ls_Return:
  assumes "ls env h p s = (Return files, s1)"
  shows "trace s1 = trace s @ [Run (connection s) (ls_cmd h p)
           (fst (remote env (connection s) (ls_cmd h p) (world s)))]"
    and "world s1 = snd (remote env (connection s) (ls_cmd h p) (world s))"
proof -
  have t: "type h = LINUX_TYPE \<or> type h = WINDOWS_TYPE" using assms by (rule ls_Return_type)
  then have c: "ls env h p s = andthen (run env (ls_cmd h p) False s) lines_of"
    using types_differ by (auto simp: ls_linux ls_windows ls_cmd_def)
  have "s1 = snd (run env (ls_cmd h p) False s)"
    using assms c andthen_snd_lines_of[of "run env (ls_cmd h p) False s"] by simp
  then show "trace s1 = trace s @ [Run (connection s) (ls_cmd h p)
           (fst (remote env (connection s) (ls_cmd h p) (world s)))]"
    and "world s1 = snd (remote env (connection s) (ls_cmd h p) (world s))"
    by (simp_all add: run_fields)
qed

lemma reset_connection_fields [simp]:
  "trace (reset_connection env h n s) = trace s @ [Close, Sleep n, Connect (user h)]"
  "connection (reset_connection env h n s) = user h"
  "world (reset_connection env h n s) = elapse env n (world s)"
  by (simp_all add: reset_connection_def Let_def)

lemma artifact_dir_eq:
  "path_join h [path h [package, ''build''], pkgdir h] = artifact_dir h package"
  using path_join_snoc[of "[sisyphus_dir h, package, ''build'']" h "pkgdir h"]
  by (simp add: path_def artifact_dir_def)

lemma transmute_each_Nil [simp]: "transmute_each env h dir msg ext [] s = (Return (), s)"
  by simp

lemma transmute_nothing:
  assumes l1: "ls env h (artifact_dir h package) s = (Return files1, s1)"
    and l2: "ls env h (artifact_dir h package) s1 = (Return files2, s2)"
    and n1: "\<forall>f \<in> set files1. \<not> is_artifact f"
    and n2: "\<forall>f \<in> set files2. \<not> is_artifact f"
  shows "transmute env h package s = (Return (), reset_connection env h 0 s2)"
proof -
  have a: "filter (\<lambda>p. endswith p ''.tar.bz2'') files1 = []"
    using n1 by (auto simp: is_artifact_def filter_empty_conv)
  have b: "filter (\<lambda>p. endswith p ''.conda'') files2 = []"
    using n2 by (auto simp: is_artifact_def filter_empty_conv)
  show ?thesis
    using l1 l2 by (simp add: transmute_def artifact_dir_def[symmetric] Let_def a b del: filter_filter)
qed

text \<open>
  C9: when the three listings of the directory of the artifacts (two by \<open>transmute\<close>, one
  by \<open>download\<close>) return and show no file that ends with \<open>.tar.bz2\<close> or \<open>.conda\<close>,
  \<open>download\<close> returns without an exception, and all it has done is the three commands of
  the listings and one new connection: no command that makes an archive, no transfer, no
  extraction, no deletion.
\<close>

theorem download_nothing_to_do:
  assumes l1: "ls env h (artifact_dir h package) s = (Return files1, s1)"
    and l2: "ls env h (artifact_dir h package) s1 = (Return files2, s2)"
    and l3: "ls env h (artifact_dir h package) (reset_connection env h 0 s2) = (Return files3, s3)"
    and none: "filter is_artifact (files1 @ files2 @ files3) = []"
  shows "download env h package destination all' s
           = (Return (), logging WARNING ''No build artifacts to download'' s3)
       \<and> (\<exists>r1 r2 r3. trace (snd (download env h package destination all' s))
            = trace s @ [Run (connection s) (ls_cmd h (artifact_dir h package)) r1,
                         Run (connection s) (ls_cmd h (artifact_dir h package)) r2,
                         Close, Sleep 0, Connect (user h),
                         Run (user h) (ls_cmd h (artifact_dir h package)) r3])"
proof -
  have t: "transmute env h package s = (Return (), reset_connection env h 0 s2)"
    using transmute_nothing[OF l1 l2] none by (simp add: filter_empty_conv)
  have f: "filter (\<lambda>f. endswith f ''.tar.bz2'' \<or> endswith f ''.conda'') files3 = []"
    using none by (auto simp: is_artifact_def filter_empty_conv)
  have d: "download env h package destination all' s
           = (Return (), logging WARNING ''No build artifacts to download'' s3)"
    by (simp add: download_def t artifact_dir_eq l3 Let_def f)
  have c1: "connection s1 = connection s" using ls_fields(2)[OF l1] .
  have c2: "connection s2 = connection s" using ls_fields(2)[OF l2] c1 by simp
  show ?thesis
    using d ls_Return(1)[OF l1] ls_Return(1)[OF l2] ls_Return(1)[OF l3] c1 c2 by simp
qed


theorem download_nothing_to_do_witness:
  "ls posix linux_host (artifact_dir linux_host ''foo'') empty_build_session = (Return [''repodata.json''], snd (ls posix linux_host (artifact_dir linux_host ''foo'') empty_build_session))
   \<and> ls posix linux_host (artifact_dir linux_host ''foo'') (snd (ls posix linux_host (artifact_dir linux_host ''foo'') empty_build_session)) = (Return [''repodata.json''], snd (ls posix linux_host (artifact_dir linux_host ''foo'') (snd (ls posix linux_host (artifact_dir linux_host ''foo'') empty_build_session))))
   \<and> ls posix linux_host (artifact_dir linux_host ''foo'')
        (reset_connection posix linux_host 0 (snd (ls posix linux_host (artifact_dir linux_host ''foo'') (snd (ls posix linux_host (artifact_dir linux_host ''foo'') empty_build_session))))) = (Return [''repodata.json''], snd (ls posix linux_host (artifact_dir linux_host ''foo'')
        (reset_connection posix linux_host 0 (snd (ls posix linux_host (artifact_dir linux_host ''foo'') (snd (ls posix linux_host (artifact_dir linux_host ''foo'') empty_build_session)))))))
   \<and> filter is_artifact ([''repodata.json''] @ [''repodata.json''] @ [''repodata.json'']) = []
   \<and> download posix linux_host ''foo'' ''/home/me/out'' False empty_build_session
         = (Return (), logging WARNING ''No build artifacts to download'' (snd (ls posix linux_host (artifact_dir linux_host ''foo'')
        (reset_connection posix linux_host 0 (snd (ls posix linux_host (artifact_dir linux_host ''foo'') (snd (ls posix linux_host (artifact_dir linux_host ''foo'') empty_build_session))))))))
     \<and> (\<exists>r1 r2 r3. trace (snd (download posix linux_host ''foo'' ''/home/me/out'' False empty_build_session))
            = trace empty_build_session @ [Run (connection empty_build_session) (ls_cmd linux_host (artifact_dir linux_host ''foo'')) r1,
                         Run (connection empty_build_session) (ls_cmd linux_host (artifact_dir linux_host ''foo'')) r2,
                         Close, Sleep 0, Connect (user linux_host),
                         Run (user linux_host) (ls_cmd linux_host (artifact_dir linux_host ''foo'')) r3])"
proof -
  have h1: "ls posix linux_host (artifact_dir linux_host ''foo'') empty_build_session = (Return [''repodata.json''], snd (ls posix linux_host (artifact_dir linux_host ''foo'') empty_build_session))"
    by code_simp
  have h2: "ls posix linux_host (artifact_dir linux_host ''foo'') (snd (ls posix linux_host (artifact_dir linux_host ''foo'') empty_build_session)) = (Return [''repodata.json''], snd (ls posix linux_host (artifact_dir linux_host ''foo'') (snd (ls posix linux_host (artifact_dir linux_host ''foo'') empty_build_session))))"
    by code_simp
  have h3: "ls posix linux_host (artifact_dir linux_host ''foo'')
        (reset_connection posix linux_host 0 (snd (ls posix linux_host (artifact_dir linux_host ''foo'') (snd (ls posix linux_host (artifact_dir linux_host ''foo'') empty_build_session))))) = (Return [''repodata.json''], snd (ls posix linux_host (artifact_dir linux_host ''foo'')
        (reset_connection posix linux_host 0 (snd (ls posix linux_host (artifact_dir linux_host ''foo'') (snd (ls posix linux_host (artifact_dir linux_host ''foo'') empty_build_session)))))))"
    by code_simp
  have hn: "filter is_artifact ([''repodata.json''] @ [''repodata.json''] @ [''repodata.json'']) = []"
    by code_simp
  from h1 h2 h3 hn download_nothing_to_do[OF h1 h2 h3 hn, of "''/home/me/out''" False]
  show ?thesis by blast
qed

lemma local_events_snoc [simp]:
  "local_events (evs @ [Run u c r]) = local_events evs"
  "local_events (evs @ [Close, Sleep n, Connect u]) = local_events evs"
  by (simp_all add: local_events_def)

lemma local_run: "local_events (trace (snd (run env cmd quiet s))) = local_events (trace s)"
  by (simp add: run_fields)

lemma local_reset: "local_events (trace (reset_connection env h n s)) = local_events (trace s)"
  by simp

lemma local_andthen:
  assumes "local_events (trace (snd m)) = X"
    and "\<And>a s'. local_events (trace (snd (f a s'))) = local_events (trace s')"
  shows "local_events (trace (snd (andthen m f))) = X"
  using assms by (simp add: andthen_cases split: outcome.splits)

lemma local_ls: "local_events (trace (snd (ls env h p s))) = local_events (trace s)"
  by (simp add: ls_def andthen_snd_lines_of local_run)

lemma local_exists: "local_events (trace (snd (exists env h p s))) = local_events (trace s)"
  by (simp add: exists_def Let_def local_andthen[OF local_run])

lemma local_transmute_each:
  "local_events (trace (snd (transmute_each env h dir msg ext pkgs s))) = local_events (trace s)"
proof (induction pkgs arbitrary: s)
  case Nil
  then show ?case by simp
next
  case (Cons pkg pkgs)
  let ?r = "run env (ACTIVATE @ '' cd '' @ dir @ '' && cph t '' @ pkg @ '' '' @ ext) False
             (reset_connection env h 0 (logging INFO msg s))"
  have r: "local_events (trace (snd ?r)) = local_events (trace s)"
    by (simp add: local_run)
  show ?case
  proof (cases ?r)
    case (Pair a s1)
    then have s1: "local_events (trace s1) = local_events (trace s)" using r by simp
    show ?thesis
    proof (cases a)
      case (Return x)
      then show ?thesis using Pair s1 Cons.IH[of s1] by simp
    next
      case (Raise e)
      then show ?thesis using Pair s1 by simp
    qed
  qed
qed

lemma local_transmute:
  "local_events (trace (snd (transmute env h package s))) = local_events (trace s)"
  unfolding transmute_def Let_def
  by (intro local_andthen local_ls local_transmute_each) (simp_all add: local_ls)

lemma local_make_tar:
  "local_events (trace (snd (make_tar env h all' tf builddir files s))) = local_events (trace s)"
  by (simp add: make_tar_def Let_def local_andthen[OF local_run] local_run)

text \<open>
  C8: when \<open>download\<close> has found artifacts and the step that makes the tarball has
  returned, and the probe then does not find the tarball, \<open>download\<close> exits with code 1,
  and up to there nothing was done on the local machine: no transfer and no extraction.
\<close>

theorem download_missing_tarball_fatal:
  assumes tr: "transmute env h package s = (Return (), s1)"
    and l: "ls env h (artifact_dir h package) s1 = (Return listed, s2)"
    and some: "\<exists>f \<in> set listed. is_artifact f"
    and mk: "make_tar env h all' (tarball h package) (path h [package, ''build''])
               (artifact_files h listed) s2 = (Return (), s3)"
    and ex: "exists env h (tarball h package) s3 = (Return False, s4)"
  shows "download env h package destination all' s
           = (Raise (SystemExit 1),
              logging ERROR (''Tar file '' @ sq @ ''%s'' @ sq @ '' is missing'') s4)
       \<and> local_events (trace (snd (download env h package destination all' s)))
           = local_events (trace s)"
proof -
  have ne: "artifact_files h listed \<noteq> []"
    using some by (auto simp: artifact_files_def filter_empty_conv)
  have d: "download env h package destination all' s
           = (Raise (SystemExit 1),
              logging ERROR (''Tar file '' @ sq @ ''%s'' @ sq @ '' is missing'') s4)"
    using ne mk ex
    by (simp add: download_def tr artifact_dir_eq l Let_def tarball_def artifact_files_def
        is_artifact_def[abs_def])
  have "local_events (trace s4) = local_events (trace s3)"
    using local_exists[of env h "tarball h package" s3] ex by simp
  also have "\<dots> = local_events (trace s2)"
    using local_make_tar[of env h all' "tarball h package" "path h [package, ''build'']"
        "artifact_files h listed" s2] mk by simp
  also have "\<dots> = local_events (trace s1)"
    using local_ls[of env h "artifact_dir h package" s1] l by simp
  also have "\<dots> = local_events (trace s)"
    using local_transmute[of env h package s] tr by simp
  finally show ?thesis using d by simp
qed

theorem download_missing_tarball_fatal_witness:
  "transmute posix linux_host ''foo'' built_session = (Return (), snd (transmute posix linux_host ''foo'' built_session))
   \<and> ls posix linux_host (artifact_dir linux_host ''foo'') (snd (transmute posix linux_host ''foo'' built_session)) = (Return [''foo-1.0-0.tar.bz2'', ''foo-1.0-0.conda'', ''repodata.json''], snd (ls posix linux_host (artifact_dir linux_host ''foo'') (snd (transmute posix linux_host ''foo'' built_session))))
   \<and> (\<exists>f \<in> set [''foo-1.0-0.tar.bz2'', ''foo-1.0-0.conda'', ''repodata.json'']. is_artifact f)
   \<and> make_tar posix linux_host False (tarball linux_host ''foo'') (path linux_host [''foo'', ''build''])
        (artifact_files linux_host [''foo-1.0-0.tar.bz2'', ''foo-1.0-0.conda'', ''repodata.json'']) (snd (ls posix linux_host (artifact_dir linux_host ''foo'') (snd (transmute posix linux_host ''foo'' built_session)))) = (Return (), snd (make_tar posix linux_host False (tarball linux_host ''foo'') (path linux_host [''foo'', ''build''])
        (artifact_files linux_host [''foo-1.0-0.tar.bz2'', ''foo-1.0-0.conda'', ''repodata.json'']) (snd (ls posix linux_host (artifact_dir linux_host ''foo'') (snd (transmute posix linux_host ''foo'' built_session))))))
   \<and> exists posix linux_host (tarball linux_host ''foo'') (snd (make_tar posix linux_host False (tarball linux_host ''foo'') (path linux_host [''foo'', ''build''])
        (artifact_files linux_host [''foo-1.0-0.tar.bz2'', ''foo-1.0-0.conda'', ''repodata.json'']) (snd (ls posix linux_host (artifact_dir linux_host ''foo'') (snd (transmute posix linux_host ''foo'' built_session)))))) = (Return False, snd (exists posix linux_host (tarball linux_host ''foo'') (snd (make_tar posix linux_host False (tarball linux_host ''foo'') (path linux_host [''foo'', ''build''])
        (artifact_files linux_host [''foo-1.0-0.tar.bz2'', ''foo-1.0-0.conda'', ''repodata.json'']) (snd (ls posix linux_host (artifact_dir linux_host ''foo'') (snd (transmute posix linux_host ''foo'' built_session))))))))
   \<and> download posix linux_host ''foo'' ''/home/me/out'' False built_session
         = (Raise (SystemExit 1),
            logging ERROR (''Tar file '' @ sq @ ''%s'' @ sq @ '' is missing'') (snd (exists posix linux_host (tarball linux_host ''foo'') (snd (make_tar posix linux_host False (tarball linux_host ''foo'') (path linux_host [''foo'', ''build''])
        (artifact_files linux_host [''foo-1.0-0.tar.bz2'', ''foo-1.0-0.conda'', ''repodata.json'']) (snd (ls posix linux_host (artifact_dir linux_host ''foo'') (snd (transmute posix linux_host ''foo'' built_session)))))))))
     \<and> local_events (trace (snd (download posix linux_host ''foo'' ''/home/me/out'' False built_session))) = local_events (trace built_session)"
proof -
  have g1: "transmute posix linux_host ''foo'' built_session = (Return (), snd (transmute posix linux_host ''foo'' built_session))"
    by code_simp
  have g2: "ls posix linux_host (artifact_dir linux_host ''foo'') (snd (transmute posix linux_host ''foo'' built_session)) = (Return [''foo-1.0-0.tar.bz2'', ''foo-1.0-0.conda'', ''repodata.json''], snd (ls posix linux_host (artifact_dir linux_host ''foo'') (snd (transmute posix linux_host ''foo'' built_session))))"
    by code_simp
  have g3: "(\<exists>f \<in> set [''foo-1.0-0.tar.bz2'', ''foo-1.0-0.conda'', ''repodata.json'']. is_artifact f)"
    by code_simp
  have g4: "make_tar posix linux_host False (tarball linux_host ''foo'') (path linux_host [''foo'', ''build''])
        (artifact_files linux_host [''foo-1.0-0.tar.bz2'', ''foo-1.0-0.conda'', ''repodata.json'']) (snd (ls posix linux_host (artifact_dir linux_host ''foo'') (snd (transmute posix linux_host ''foo'' built_session)))) = (Return (), snd (make_tar posix linux_host False (tarball linux_host ''foo'') (path linux_host [''foo'', ''build''])
        (artifact_files linux_host [''foo-1.0-0.tar.bz2'', ''foo-1.0-0.conda'', ''repodata.json'']) (snd (ls posix linux_host (artifact_dir linux_host ''foo'') (snd (transmute posix linux_host ''foo'' built_session))))))"
    by code_simp
  have g5: "exists posix linux_host (tarball linux_host ''foo'') (snd (make_tar posix linux_host False (tarball linux_host ''foo'') (path linux_host [''foo'', ''build''])
        (artifact_files linux_host [''foo-1.0-0.tar.bz2'', ''foo-1.0-0.conda'', ''repodata.json'']) (snd (ls posix linux_host (artifact_dir linux_host ''foo'') (snd (transmute posix linux_host ''foo'' built_session)))))) = (Return False, snd (exists posix linux_host (tarball linux_host ''foo'') (snd (make_tar posix linux_host False (tarball linux_host ''foo'') (path linux_host [''foo'', ''build''])
        (artifact_files linux_host [''foo-1.0-0.tar.bz2'', ''foo-1.0-0.conda'', ''repodata.json'']) (snd (ls posix linux_host (artifact_dir linux_host ''foo'') (snd (transmute posix linux_host ''foo'' built_session))))))))"
    by code_simp
  from g1 g2 g3 g4 g5
    download_missing_tarball_fatal[OF g1 g2 g3 g4 g5, of "''/home/me/out''"]
  show ?thesis by blast
qed

subsection \<open>Converting packages between the two formats\<close>

lemma ls_sem:
  assumes "type h = LINUX_TYPE \<or> type h = WINDOWS_TYPE"
  shows "fst (ls env h p s)
      = (case fst (remote env (connection s) (ls_cmd h p) (world s)) of
           None \<Rightarrow> Raise (SystemExit 1)
         | Some out \<Rightarrow> Return (splitlines (rstrip (lstrip out))))"
    and "world (snd (ls env h p s)) = snd (remote env (connection s) (ls_cmd h p) (world s))"
    and "connection (snd (ls env h p s)) = connection s"
    and "trace (snd (ls env h p s)) = trace s @ [Run (connection s) (ls_cmd h p)
           (fst (remote env (connection s) (ls_cmd h p) (world s)))]"
proof -
  have c: "ls env h p s = andthen (run env (ls_cmd h p) False s) lines_of"
    using assms types_differ by (auto simp: ls_linux ls_windows ls_cmd_def)
  show "fst (ls env h p s)
      = (case fst (remote env (connection s) (ls_cmd h p) (world s)) of
           None \<Rightarrow> Raise (SystemExit 1)
         | Some out \<Rightarrow> Return (splitlines (rstrip (lstrip out))))"
    unfolding c
    by (simp add: andthen_cases run_outcome lines_of_def split: option.splits)
  show "world (snd (ls env h p s)) = snd (remote env (connection s) (ls_cmd h p) (world s))"
    and "connection (snd (ls env h p s)) = connection s"
    and "trace (snd (ls env h p s)) = trace s @ [Run (connection s) (ls_cmd h p)
           (fst (remote env (connection s) (ls_cmd h p) (world s)))]"
    unfolding c by (simp_all add: andthen_snd_lines_of run_fields)
qed

lemma endswith_append [simp]: "endswith (b @ suf) suf"
  by (simp add: endswith_def)

lemma endswith_split: "endswith p suf \<Longrightarrow> \<exists>b. p = b @ suf"
  by (metis append_take_drop_id endswith_def)

lemma pat_match_closed:
  "pat_match tar_bz2_pat ''tar.bz2''" "pat_match conda_pat ''conda''"
  by code_simp+

lemma re_sub_tar: "re_sub_end tar_bz2_pat ''conda'' (b @ ''.tar.bz2'') = b @ ''.conda''"
proof -
  have "drop (length b + 8 - 7) (b @ ''.tar.bz2'') = ''tar.bz2''" by simp
  moreover have "take (length b + 8 - 7) (b @ ''.tar.bz2'') = b @ ''.''" by simp
  moreover have "length tar_bz2_pat = 7" by (simp add: tar_bz2_pat_def)
  ultimately show ?thesis
    by (simp add: re_sub_end_def Let_def pat_match_closed)
qed

lemma re_sub_conda: "re_sub_end conda_pat ''tar.bz2'' (b @ ''.conda'') = b @ ''.tar.bz2''"
proof -
  have "drop (length b + 6 - 5) (b @ ''.conda'') = ''conda''" by simp
  moreover have "take (length b + 6 - 5) (b @ ''.conda'') = b @ ''.''" by simp
  moreover have "length conda_pat = 5" by (simp add: conda_pat_def)
  ultimately show ?thesis
    by (simp add: re_sub_end_def Let_def pat_match_closed)
qed


lemma bz2_only:
  "set (filter (\<lambda>p. re_sub_end tar_bz2_pat ''conda'' p \<notin> set (filter (\<lambda>p. endswith p ''.conda'') N2))
          (filter (\<lambda>p. endswith p ''.tar.bz2'') N1))
   = {b @ ''.tar.bz2'' | b. b @ ''.tar.bz2'' \<in> set N1 \<and> b @ ''.conda'' \<notin> set N2}"
  (is "?L = ?R")
proof
  show "?L \<subseteq> ?R"
  proof
    fix p assume "p \<in> ?L"
    then have m: "p \<in> set N1" and e: "endswith p ''.tar.bz2''"
      and n: "re_sub_end tar_bz2_pat ''conda'' p \<notin> set (filter (\<lambda>p. endswith p ''.conda'') N2)"
      by auto
    obtain b where b: "p = b @ ''.tar.bz2''" using endswith_split[OF e] by blast
    have "b @ ''.conda'' \<notin> set N2"
      using n endswith_append[of b "''.conda''"] unfolding b re_sub_tar by auto
    then show "p \<in> ?R" using b m by blast
  qed
  show "?R \<subseteq> ?L"
  proof
    fix p assume "p \<in> ?R"
    then obtain b where b: "p = b @ ''.tar.bz2''" and m: "p \<in> set N1"
      and n: "b @ ''.conda'' \<notin> set N2" by blast
    have "re_sub_end tar_bz2_pat ''conda'' p \<notin> set N2" unfolding b re_sub_tar using n .
    then show "p \<in> ?L" using m b endswith_append[of b "''.tar.bz2''"] by auto
  qed
qed

lemma conda_only:
  "set (filter (\<lambda>p. re_sub_end conda_pat ''tar.bz2'' p \<notin> set (filter (\<lambda>p. endswith p ''.tar.bz2'') N1))
          (filter (\<lambda>p. endswith p ''.conda'') N2))
   = {b @ ''.conda'' | b. b @ ''.conda'' \<in> set N2 \<and> b @ ''.tar.bz2'' \<notin> set N1}"
  (is "?L = ?R")
proof
  show "?L \<subseteq> ?R"
  proof
    fix p assume "p \<in> ?L"
    then have m: "p \<in> set N2" and e: "endswith p ''.conda''"
      and n: "re_sub_end conda_pat ''tar.bz2'' p \<notin> set (filter (\<lambda>p. endswith p ''.tar.bz2'') N1)"
      by auto
    obtain b where b: "p = b @ ''.conda''" using endswith_split[OF e] by blast
    have "b @ ''.tar.bz2'' \<notin> set N1"
      using n endswith_append[of b "''.tar.bz2''"] unfolding b re_sub_conda by auto
    then show "p \<in> ?R" using b m by blast
  qed
  show "?R \<subseteq> ?L"
  proof
    fix p assume "p \<in> ?R"
    then obtain b where b: "p = b @ ''.conda''" and m: "p \<in> set N2"
      and n: "b @ ''.tar.bz2'' \<notin> set N1" by blast
    have "re_sub_end conda_pat ''tar.bz2'' p \<notin> set N1" unfolding b re_sub_conda using n .
    then show "p \<in> ?L" using m b endswith_append[of b "''.conda''"] by auto
  qed
qed

lemma with_suffix:
  assumes "\<forall>p \<in> set xs. \<exists>b. p = b @ suf"
  shows "\<exists>stems. xs = map (\<lambda>b. b @ suf) stems"
  using assms
proof (induction xs)
  case Nil
  then show ?case by simp
next
  case (Cons x xs)
  then obtain stems where stems: "xs = map (\<lambda>b. b @ suf) stems" by auto
  from Cons.prems obtain b where "x = b @ suf" by auto
  then have "x # xs = map (\<lambda>b. b @ suf) (b # stems)" using stems by simp
  then show ?case by (rule exI)
qed

lemma commands_simps [simp]:
  "commands [] = []"
  "commands (xs @ ys) = commands xs @ commands ys"
  "commands (Run u c r # evs) = c # commands evs"
  "commands (Close # evs) = commands evs"
  "commands (Sleep n # evs) = commands evs"
  "commands (Connect u # evs) = commands evs"
  by (simp_all add: commands_def)

lemma transmute_each_works:
  assumes lw: "listing_works env h dir" and cv: "converts env h dir from to"
    and present: "\<forall>b \<in> set stems. b @ from \<in> set (names env h dir (world s))"
  shows "\<exists>s' T. transmute_each env h dir msg to (map (\<lambda>b. b @ from) stems) s = (Return (), s')
       \<and> set (names env h dir (world s')) = set (names env h dir (world s)) \<union> (\<lambda>b. b @ to) ` set stems
       \<and> trace s' = trace s @ T
       \<and> commands T = map (\<lambda>b. cph_cmd dir (b @ from) to) stems"
  using present
proof (induction stems arbitrary: s)
  case Nil
  then show ?case by simp
next
  case (Cons b stems)
  let ?sr = "reset_connection env h 0 (logging INFO msg s)"
  let ?cmd = "cph_cmd dir (b @ from) to"
  have nr: "names env h dir (world ?sr) = names env h dir (world s)"
    using lw by (simp add: listing_works_def)
  have cr: "connection ?sr = user h" by simp
  have inb: "b @ from \<in> set (names env h dir (world ?sr))"
    using Cons.prems nr by simp
  have ok: "fst (remote env (user h) ?cmd (world ?sr)) \<noteq> None"
    and grow: "set (names env h dir (snd (remote env (user h) ?cmd (world ?sr))))
            = insert (b @ to) (set (names env h dir (world ?sr)))"
    using cv inb unfolding converts_def by blast+
  obtain a s1 where r: "run env ?cmd False ?sr = (a, s1)" by (cases "run env ?cmd False ?sr")
  have a: "\<exists>x. a = Return x"
    using run_outcome[of env ?cmd False ?sr] r ok cr by (auto split: option.splits)
  have w1: "world s1 = snd (remote env (user h) ?cmd (world ?sr))"
    using run_fields(1)[of env ?cmd False ?sr] r cr by simp
  have t1: "trace s1 = trace s @ [Close, Sleep 0, Connect (user h),
        Run (user h) ?cmd (fst (remote env (user h) ?cmd (world ?sr)))]"
    using run_fields(3)[of env ?cmd False ?sr] r cr by simp
  have n1: "set (names env h dir (world s1)) = insert (b @ to) (set (names env h dir (world s)))"
    using grow w1 nr by simp
  have "\<forall>b \<in> set stems. b @ from \<in> set (names env h dir (world s1))"
    using Cons.prems n1 by simp
  from Cons.IH[OF this] obtain s' T where
    e: "transmute_each env h dir msg to (map (\<lambda>b. b @ from) stems) s1 = (Return (), s')"
    and n: "set (names env h dir (world s')) = set (names env h dir (world s1)) \<union> (\<lambda>b. b @ to) ` set stems"
    and t: "trace s' = trace s1 @ T"
    and c: "commands T = map (\<lambda>b. cph_cmd dir (b @ from) to) stems"
    by blast
  have step: "transmute_each env h dir msg to (map (\<lambda>b. b @ from) (b # stems)) s = (Return (), s')"
    using a r e by (auto simp: cph_cmd_def)
  have tr: "trace s' = trace s @ ([Close, Sleep 0, Connect (user h),
        Run (user h) ?cmd (fst (remote env (user h) ?cmd (world ?sr)))] @ T)"
    using t t1 by simp
  have cm: "commands ([Close, Sleep 0, Connect (user h),
        Run (user h) ?cmd (fst (remote env (user h) ?cmd (world ?sr)))] @ T)
      = map (\<lambda>b. cph_cmd dir (b @ from) to) (b # stems)"
    using c by simp
  have nn: "set (names env h dir (world s'))
      = set (names env h dir (world s)) \<union> (\<lambda>b. b @ to) ` set (b # stems)"
    using n n1 by auto
  show ?case using step tr cm nn by blast
qed


lemma ls_names:
  assumes t: "type h = LINUX_TYPE \<or> type h = WINDOWS_TYPE"
    and c: "connection s = user h"
    and lw: "listing_works env h dir"
  shows "\<exists>s1 r. ls env h dir s = (Return (names env h dir (world s)), s1)
     \<and> world s1 = world s \<and> connection s1 = user h
     \<and> trace s1 = trace s @ [Run (user h) (ls_cmd h dir) r]"
proof -
  obtain out where out: "fst (remote env (user h) (ls_cmd h dir) (world s)) = Some out"
    using lw unfolding listing_works_def by fastforce
  have ro: "snd (remote env (user h) (ls_cmd h dir) (world s)) = world s"
    using lw unfolding listing_works_def by blast
  have "fst (ls env h dir s) = Return (names env h dir (world s))"
    using ls_sem(1)[OF t, of env dir s] c out by (simp add: names_def)
  moreover have "world (snd (ls env h dir s)) = world s"
    using ls_sem(2)[OF t, of env dir s] c ro by simp
  moreover have "connection (snd (ls env h dir s)) = user h"
    using ls_sem(3)[OF t, of env dir s] c by simp
  moreover have "trace (snd (ls env h dir s)) = trace s @ [Run (user h) (ls_cmd h dir)
      (fst (remote env (user h) (ls_cmd h dir) (world s)))]"
    using ls_sem(4)[OF t, of env dir s] c by simp
  ultimately show ?thesis by (cases "ls env h dir s") auto
qed

text \<open>
  C7: on a host whose connection is the one of its user, and a machine where the listing
  of the directory of the artifacts works and the conversion tool converts what is there,
  \<open>transmute\<close> returns, and the commands it has run are the two listings, then one
  conversion to \<open>.conda\<close> for each name that is there as \<open>.tar.bz2\<close> only, then one
  conversion to \<open>.tar.bz2\<close> for each name that is there as \<open>.conda\<close> only: each such
  package once, and none for a package that is there in both formats. Afterwards every
  name that was there in one of the formats is there in both.
\<close>

theorem transmute_set_difference:
  assumes t: "type h = LINUX_TYPE \<or> type h = WINDOWS_TYPE"
    and c: "connection s = user h"
    and lw: "listing_works env h (artifact_dir h package)"
    and c1: "converts env h (artifact_dir h package) ''.tar.bz2'' ''.conda''"
    and c2: "converts env h (artifact_dir h package) ''.conda'' ''.tar.bz2''"
  shows "\<exists>s' xs ys. transmute env h package s = (Return (), s')
     \<and> commands (drop (length (trace s)) (trace s'))
         = [ls_cmd h (artifact_dir h package), ls_cmd h (artifact_dir h package)]
           @ map (\<lambda>p. cph_cmd (artifact_dir h package) p ''.conda'') xs
           @ map (\<lambda>p. cph_cmd (artifact_dir h package) p ''.tar.bz2'') ys
     \<and> distinct xs
     \<and> set xs = {b @ ''.tar.bz2'' | b.
          b @ ''.tar.bz2'' \<in> set (names env h (artifact_dir h package) (world s))
          \<and> b @ ''.conda'' \<notin> set (names env h (artifact_dir h package) (world s))}
     \<and> distinct ys
     \<and> set ys = {b @ ''.conda'' | b.
          b @ ''.conda'' \<in> set (names env h (artifact_dir h package) (world s))
          \<and> b @ ''.tar.bz2'' \<notin> set (names env h (artifact_dir h package) (world s))}
     \<and> (\<forall>b. b @ ''.tar.bz2'' \<in> set (names env h (artifact_dir h package) (world s))
            \<or> b @ ''.conda'' \<in> set (names env h (artifact_dir h package) (world s))
          \<longrightarrow> b @ ''.tar.bz2'' \<in> set (names env h (artifact_dir h package) (world s'))
            \<and> b @ ''.conda'' \<in> set (names env h (artifact_dir h package) (world s')))"
proof -
  let ?D = "artifact_dir h package"
  let ?N = "names env h ?D (world s)"
  let ?xs = "filter (\<lambda>p. re_sub_end tar_bz2_pat ''conda'' p
                \<notin> set (filter (\<lambda>p. endswith p ''.conda'') ?N))
              (filter (\<lambda>p. endswith p ''.tar.bz2'') ?N)"
  let ?ys = "filter (\<lambda>p. re_sub_end conda_pat ''tar.bz2'' p
                \<notin> set (filter (\<lambda>p. endswith p ''.tar.bz2'') ?N))
              (filter (\<lambda>p. endswith p ''.conda'') ?N)"
  obtain s1 r1 where l1: "ls env h ?D s = (Return ?N, s1)" and w1: "world s1 = world s"
    and k1: "connection s1 = user h"
    and t1: "trace s1 = trace s @ [Run (user h) (ls_cmd h ?D) r1]"
    using ls_names[OF t c lw] by blast
  obtain s2 r2 where l2: "ls env h ?D s1 = (Return ?N, s2)" and w2: "world s2 = world s"
    and t2: "trace s2 = trace s @ [Run (user h) (ls_cmd h ?D) r1, Run (user h) (ls_cmd h ?D) r2]"
    using ls_names[OF t k1 lw] w1 t1 by auto
  have dN: "distinct ?N" using lw unfolding listing_works_def by blast
  have sx: "set ?xs = {b @ ''.tar.bz2'' | b. b @ ''.tar.bz2'' \<in> set ?N \<and> b @ ''.conda'' \<notin> set ?N}"
    by (rule bz2_only)
  have sy: "set ?ys = {b @ ''.conda'' | b. b @ ''.conda'' \<in> set ?N \<and> b @ ''.tar.bz2'' \<notin> set ?N}"
    by (rule conda_only)
  have dx: "distinct ?xs" and dy: "distinct ?ys" using dN by simp_all
  obtain stems1 where x: "?xs = map (\<lambda>b. b @ ''.tar.bz2'') stems1"
    using with_suffix[of ?xs "''.tar.bz2''"] sx by blast
  obtain stems2 where y: "?ys = map (\<lambda>b. b @ ''.conda'') stems2"
    using with_suffix[of ?ys "''.conda''"] sy by blast
  have p1: "\<forall>b \<in> set stems1. b @ ''.tar.bz2'' \<in> set (names env h ?D (world s2))"
  proof
    fix b assume "b \<in> set stems1"
    then have "b @ ''.tar.bz2'' \<in> set ?xs" unfolding x by simp
    then show "b @ ''.tar.bz2'' \<in> set (names env h ?D (world s2))" using w2 by simp
  qed
  obtain s3 T1 where
    e1: "transmute_each env h ?D ''Transmuting %s to .conda'' ''.conda''
           (map (\<lambda>b. b @ ''.tar.bz2'') stems1) s2 = (Return (), s3)"
    and n3: "set (names env h ?D (world s3)) = set ?N \<union> (\<lambda>b. b @ ''.conda'') ` set stems1"
    and t3: "trace s3 = trace s2 @ T1"
    and m1: "commands T1 = map (\<lambda>b. cph_cmd ?D (b @ ''.tar.bz2'') ''.conda'') stems1"
    using transmute_each_works[OF lw c1 p1, of "''Transmuting %s to .conda''"] w2 by auto
  have p2: "\<forall>b \<in> set stems2. b @ ''.conda'' \<in> set (names env h ?D (world s3))"
  proof
    fix b assume "b \<in> set stems2"
    then have "b @ ''.conda'' \<in> set ?ys" unfolding y by simp
    then show "b @ ''.conda'' \<in> set (names env h ?D (world s3))" using n3 by simp
  qed
  obtain s4 T2 where
    e2: "transmute_each env h ?D ''Transmuting %s to .tar.bz2'' ''.tar.bz2''
           (map (\<lambda>b. b @ ''.conda'') stems2) s3 = (Return (), s4)"
    and n4: "set (names env h ?D (world s4))
           = set (names env h ?D (world s3)) \<union> (\<lambda>b. b @ ''.tar.bz2'') ` set stems2"
    and t4: "trace s4 = trace s3 @ T2"
    and m2: "commands T2 = map (\<lambda>b. cph_cmd ?D (b @ ''.conda'') ''.tar.bz2'') stems2"
    using transmute_each_works[OF lw c2 p2, of "''Transmuting %s to .tar.bz2''"] by auto
  let ?s' = "reset_connection env h 0 s4"
  have tm: "transmute env h package s = (Return (), ?s')"
    by (simp only: transmute_def Let_def artifact_dir_def[symmetric] l1 l2 andthen_Return
        x y e1 e2)
  have n': "set (names env h ?D (world ?s'))
      = set ?N \<union> (\<lambda>b. b @ ''.conda'') ` set stems1 \<union> (\<lambda>b. b @ ''.tar.bz2'') ` set stems2"
    using lw n3 n4 by (simp add: listing_works_def)
  have tr: "trace ?s' = trace s @ ([Run (user h) (ls_cmd h ?D) r1, Run (user h) (ls_cmd h ?D) r2]
      @ T1 @ T2 @ [Close, Sleep 0, Connect (user h)])"
    using t2 t3 t4 by simp
  have cm: "commands (drop (length (trace s)) (trace ?s'))
      = [ls_cmd h ?D, ls_cmd h ?D] @ map (\<lambda>p. cph_cmd ?D p ''.conda'') ?xs
        @ map (\<lambda>p. cph_cmd ?D p ''.tar.bz2'') ?ys"
    unfolding tr x y using m1 m2 by (simp add: comp_def)
  have both: "b @ ''.tar.bz2'' \<in> set (names env h ?D (world ?s'))
            \<and> b @ ''.conda'' \<in> set (names env h ?D (world ?s'))"
    if "b @ ''.tar.bz2'' \<in> set ?N \<or> b @ ''.conda'' \<in> set ?N" for b
  proof (cases "b @ ''.tar.bz2'' \<in> set ?N \<and> b @ ''.conda'' \<in> set ?N")
    case True
    then show ?thesis unfolding n' by simp
  next
    case False
    show ?thesis
    proof (cases "b @ ''.tar.bz2'' \<in> set ?N")
      case True
      then have "b @ ''.tar.bz2'' \<in> set ?xs" using False unfolding sx by blast
      then have "b \<in> set stems1" unfolding x by auto
      then show ?thesis using True unfolding n' by simp
    next
      case no: False
      then have "b @ ''.conda'' \<in> set ?N" using that by simp
      then have "b @ ''.conda'' \<in> set ?ys" using no unfolding sy by blast
      then have "b \<in> set stems2" unfolding y by auto
      then show ?thesis using \<open>b @ ''.conda'' \<in> set ?N\<close> unfolding n' by simp
    qed
  qed
  show ?thesis
    using tm cm dx sx dy sy both by blast
qed


text \<open>The simulated machine with three packages meets the expectations.\<close>

lemma three_ls: "ls_cmd linux_host three_dir = ''ls -1A '' @ three_dir"
  by (simp add: ls_cmd_def linux_host_def)

lemma three_names_closed:
  "names three linux_host three_dir (False, False) = three_names (False, False)"
  "names three linux_host three_dir (False, True) = three_names (False, True)"
  "names three linux_host three_dir (True, False) = three_names (True, False)"
  "names three linux_host three_dir (True, True) = three_names (True, True)"
  by code_simp+

lemma three_names_eq: "names three linux_host three_dir w = three_names w"
  by (cases w; cases "fst w"; cases "snd w") (simp_all add: three_names_closed)

lemma three_user: "user linux_host = LINUX_USER"
  by (simp add: linux_host_def)

lemma three_listing: "listing_works three linux_host three_dir"
proof -
  have "fst (remote three (user linux_host) (ls_cmd linux_host three_dir) w) \<noteq> None
      \<and> snd (remote three (user linux_host) (ls_cmd linux_host three_dir) w) = w" for w
    by (simp add: three_def three_remote_def three_ls three_user)
  moreover have "distinct (names three linux_host three_dir w)" for w
    by (simp add: three_names_eq three_names_def)
  moreover have "names three linux_host three_dir (elapse three 0 w)
      = names three linux_host three_dir w" for w
    by (simp add: three_def)
  ultimately show ?thesis unfolding listing_works_def by blast
qed

lemma strip_prefix_only: "strip_affix pre [] (pre @ x) = Some x"
  by (simp add: strip_affix_def)

lemma three_cph:
  "remote three (user linux_host) (cph_cmd three_dir pkg ext) w = three_convert (pkg @ '' '' @ ext) w"
proof -
  have "cph_cmd three_dir pkg ext \<noteq> ''ls -1A '' @ three_dir"
    by (simp add: cph_cmd_def ACTIVATE_def)
  moreover have "strip_affix (ACTIVATE @ '' cd '' @ three_dir @ '' && cph t '') []
      (cph_cmd three_dir pkg ext) = Some (pkg @ '' '' @ ext)"
    using strip_prefix_only[of "ACTIVATE @ '' cd '' @ three_dir @ '' && cph t ''" "pkg @ '' '' @ ext"]
    by (simp add: cph_cmd_def)
  ultimately show ?thesis
    by (simp add: three_def three_remote_def three_user)
qed

lemma stem_of: "b @ suf = x \<longleftrightarrow> endswith x suf \<and> b = take (length x - length suf) x"
proof
  assume "b @ suf = x"
  then show "endswith x suf \<and> b = take (length x - length suf) x"
    by (auto simp: endswith_def)
next
  assume r: "endswith x suf \<and> b = take (length x - length suf) x"
  then have "drop (length x - length suf) x = suf" by (simp add: endswith_def)
  then have "take (length x - length suf) x @ suf = x"
    using append_take_drop_id[of "length x - length suf" x] by simp
  then show "b @ suf = x" using r by simp
qed

lemma three_converts_bz2: "converts three linux_host three_dir ''.tar.bz2'' ''.conda''"
proof -
  have "fst (remote three (user linux_host) (cph_cmd three_dir (b @ ''.tar.bz2'') ''.conda'') w) \<noteq> None
      \<and> set (names three linux_host three_dir
               (snd (remote three (user linux_host) (cph_cmd three_dir (b @ ''.tar.bz2'') ''.conda'') w)))
          = insert (b @ ''.conda'') (set (names three linux_host three_dir w))"
    if "b @ ''.tar.bz2'' \<in> set (names three linux_host three_dir w)" for w b
  proof -
    from that have "b = ''a'' \<or> b = ''b'' \<or> (b = ''c'' \<and> snd w)"
      by (auto simp: three_names_eq three_names_def stem_of endswith_def split: if_splits)
    then show ?thesis
      by (auto simp: three_cph three_convert_def three_names_eq three_names_def)
  qed
  then show ?thesis unfolding converts_def by blast
qed

lemma three_converts_conda: "converts three linux_host three_dir ''.conda'' ''.tar.bz2''"
proof -
  have "fst (remote three (user linux_host) (cph_cmd three_dir (b @ ''.conda'') ''.tar.bz2'') w) \<noteq> None
      \<and> set (names three linux_host three_dir
               (snd (remote three (user linux_host) (cph_cmd three_dir (b @ ''.conda'') ''.tar.bz2'') w)))
          = insert (b @ ''.tar.bz2'') (set (names three linux_host three_dir w))"
    if "b @ ''.conda'' \<in> set (names three linux_host three_dir w)" for w b
  proof -
    from that have "b = ''a'' \<or> b = ''c'' \<or> (b = ''b'' \<and> fst w)"
      by (auto simp: three_names_eq three_names_def stem_of endswith_def split: if_splits)
    then show ?thesis
      by (auto simp: three_cph three_convert_def three_names_eq three_names_def)
  qed
  then show ?thesis unfolding converts_def by blast
qed


theorem transmute_set_difference_witness:
  "(type linux_host = LINUX_TYPE \<or> type linux_host = WINDOWS_TYPE)
   \<and> connection three_session = user linux_host
   \<and> listing_works three linux_host (artifact_dir linux_host ''foo'')
   \<and> converts three linux_host (artifact_dir linux_host ''foo'') ''.tar.bz2'' ''.conda''
   \<and> converts three linux_host (artifact_dir linux_host ''foo'') ''.conda'' ''.tar.bz2''
   \<and> (\<exists>s' xs ys. transmute three linux_host ''foo'' three_session = (Return (), s')
     \<and> commands (drop (length (trace three_session)) (trace s'))
         = [ls_cmd linux_host (artifact_dir linux_host ''foo''), ls_cmd linux_host (artifact_dir linux_host ''foo'')]
           @ map (\<lambda>p. cph_cmd (artifact_dir linux_host ''foo'') p ''.conda'') xs
           @ map (\<lambda>p. cph_cmd (artifact_dir linux_host ''foo'') p ''.tar.bz2'') ys
     \<and> distinct xs
     \<and> set xs = {b @ ''.tar.bz2'' | b.
          b @ ''.tar.bz2'' \<in> set (names three linux_host (artifact_dir linux_host ''foo'') (world three_session))
          \<and> b @ ''.conda'' \<notin> set (names three linux_host (artifact_dir linux_host ''foo'') (world three_session))}
     \<and> distinct ys
     \<and> set ys = {b @ ''.conda'' | b.
          b @ ''.conda'' \<in> set (names three linux_host (artifact_dir linux_host ''foo'') (world three_session))
          \<and> b @ ''.tar.bz2'' \<notin> set (names three linux_host (artifact_dir linux_host ''foo'') (world three_session))}
     \<and> (\<forall>b. b @ ''.tar.bz2'' \<in> set (names three linux_host (artifact_dir linux_host ''foo'') (world three_session))
            \<or> b @ ''.conda'' \<in> set (names three linux_host (artifact_dir linux_host ''foo'') (world three_session))
          \<longrightarrow> b @ ''.tar.bz2'' \<in> set (names three linux_host (artifact_dir linux_host ''foo'') (world s'))
            \<and> b @ ''.conda'' \<in> set (names three linux_host (artifact_dir linux_host ''foo'') (world s'))))
   \<and> names three linux_host (artifact_dir linux_host ''foo'') (world three_session)
       = [''a.tar.bz2'', ''a.conda'', ''b.tar.bz2'', ''c.conda'']
   \<and> fst (transmute three linux_host ''foo'' three_session) = Return ()
   \<and> commands (trace (snd (transmute three linux_host ''foo'' three_session)))
       = [ls_cmd linux_host (artifact_dir linux_host ''foo''), ls_cmd linux_host (artifact_dir linux_host ''foo''),
          cph_cmd (artifact_dir linux_host ''foo'') ''b.tar.bz2'' ''.conda'', cph_cmd (artifact_dir linux_host ''foo'') ''c.conda'' ''.tar.bz2'']
   \<and> names three linux_host (artifact_dir linux_host ''foo'') (world (snd (transmute three linux_host ''foo'' three_session)))
       = [''a.tar.bz2'', ''a.conda'', ''b.tar.bz2'', ''c.conda'', ''b.conda'', ''c.tar.bz2'']"
proof -
  have t: "(type linux_host = LINUX_TYPE \<or> type linux_host = WINDOWS_TYPE)"
    by (simp add: linux_host_def)
  have c: "connection three_session = user linux_host"
    by (simp add: three_session_def session_of_def)
  have lw: "listing_works three linux_host (artifact_dir linux_host ''foo'')"
    using three_listing by (simp add: three_dir_def)
  have c1: "converts three linux_host (artifact_dir linux_host ''foo'') ''.tar.bz2'' ''.conda''"
    using three_converts_bz2 by (simp add: three_dir_def)
  have c2: "converts three linux_host (artifact_dir linux_host ''foo'') ''.conda'' ''.tar.bz2''"
    using three_converts_conda by (simp add: three_dir_def)
  have ev: "names three linux_host (artifact_dir linux_host ''foo'') (world three_session)
       = [''a.tar.bz2'', ''a.conda'', ''b.tar.bz2'', ''c.conda'']
   \<and> fst (transmute three linux_host ''foo'' three_session) = Return ()
   \<and> commands (trace (snd (transmute three linux_host ''foo'' three_session)))
       = [ls_cmd linux_host (artifact_dir linux_host ''foo''), ls_cmd linux_host (artifact_dir linux_host ''foo''),
          cph_cmd (artifact_dir linux_host ''foo'') ''b.tar.bz2'' ''.conda'', cph_cmd (artifact_dir linux_host ''foo'') ''c.conda'' ''.tar.bz2'']
   \<and> names three linux_host (artifact_dir linux_host ''foo'') (world (snd (transmute three linux_host ''foo'' three_session)))
       = [''a.tar.bz2'', ''a.conda'', ''b.tar.bz2'', ''c.conda'', ''b.conda'', ''c.tar.bz2'']"
    by code_simp
  from t c lw c1 c2 ev transmute_set_difference[OF t c lw c1 c2]
  show ?thesis by blast
qed

end
